theory Spec2Isabelle
  imports Main "HOL-Library.Sublist"
begin

section \<open>Errors\<close>

text \<open>
  Go's \<^verbatim>\<open>error\<close> values, as far as the package builds and inspects them.
  \<^item> \<open>Msg\<close>: an error produced by an external system (the container runtime, the
    provisioning engine, the operating system), identified by its message;
  \<^item> \<open>NotFound\<close>: the runtime's "no such object" error, the one that
    \<^verbatim>\<open>client.IsErrNotFound\<close> recognises;
  \<^item> \<open>DeadlineExceeded\<close>: \<^verbatim>\<open>context.DeadlineExceeded\<close>;
  \<^item> \<open>Errorf p e\<close>: \<^verbatim>\<open>fmt.Errorf("p: %w", e)\<close>, an error that wraps \<open>e\<close>;
  \<^item> \<open>joinError es\<close>: the value \<^verbatim>\<open>errors.Join\<close> returns for a non-empty list.
  A \<^verbatim>\<open>nil\<close> error is \<open>None\<close> of \<open>error option\<close>.
\<close>

datatype error =
    Msg string
  | NotFound string
  | DeadlineExceeded
  | Errorf string error
  | joinError "error list"

text \<open>\<^verbatim>\<open>errors.Join(errs...)\<close>: nil values are discarded; nil when nothing is left.\<close>

definition errors_Join :: "error option list \<Rightarrow> error option" where
  "errors_Join errs =
     (let es = List.map_filter id errs in if es = [] then None else Some (joinError es))"

text \<open>
  \<^verbatim>\<open>errors.Is(err, target)\<close>: \<open>target\<close> is \<open>err\<close> itself or is reached by unwrapping,
  through \<^verbatim>\<open>%w\<close> and through every member of a joined error.
\<close>

fun errors_Is :: "error \<Rightarrow> error \<Rightarrow> bool" where
  "errors_Is (Errorf p e) t = (Errorf p e = t \<or> errors_Is e t)"
| "errors_Is (joinError es) t = (joinError es = t \<or> list_ex (\<lambda>e. errors_Is e t) es)"
| "errors_Is e t = (e = t)"

fun IsErrNotFound :: "error \<Rightarrow> bool" where
  "IsErrNotFound (NotFound s) = True"
| "IsErrNotFound e = False"

section \<open>Paths (Go's \<^verbatim>\<open>strings\<close> and \<^verbatim>\<open>path/filepath\<close> on a Unix host)\<close>

text \<open>The path separator, \<^verbatim>\<open>os.PathSeparator\<close>, is the character \<open>/\<close>.\<close>

text \<open>\<^verbatim>\<open>strings.TrimPrefix(s, prefix)\<close>\<close>

definition TrimPrefix :: "string \<Rightarrow> string \<Rightarrow> string" where
  "TrimPrefix s p = (if take (length p) s = p then drop (length p) s else s)"

text \<open>
  \<^verbatim>\<open>filepath.Clean\<close>. The library scans the path with a read index and an output
  buffer; here the rest of the path is the list still to read and \<open>out\<close> the buffer.
  \<open>dotdot\<close> is the length of the buffer that a \<^verbatim>\<open>..\<close> may not remove.
\<close>

fun backtrack :: "nat \<Rightarrow> string \<Rightarrow> nat \<Rightarrow> nat" where
  "backtrack dotdot out 0 = 0"
| "backtrack dotdot out (Suc w) =
     (if Suc w > dotdot \<and> out ! Suc w \<noteq> CHR ''/'' then backtrack dotdot out w else Suc w)"

function clean_loop :: "bool \<Rightarrow> nat \<Rightarrow> string \<Rightarrow> string \<Rightarrow> string" where
  "clean_loop rooted dotdot out [] = out"
| "clean_loop rooted dotdot out (c # cs) =
     (if c = CHR ''/'' then clean_loop rooted dotdot out cs
      else if c = CHR ''.'' \<and> (cs = [] \<or> hd cs = CHR ''/'') then
        clean_loop rooted dotdot out cs
      else if c = CHR ''.'' \<and> cs \<noteq> [] \<and> hd cs = CHR ''.''
              \<and> (tl cs = [] \<or> hd (tl cs) = CHR ''/'') then
        (if length out > dotdot then
           clean_loop rooted dotdot (take (backtrack dotdot out (length out - 1)) out) (tl cs)
         else if \<not> rooted then
           (let out' = (if length out > 0 then out @ [CHR ''/''] else out) @ ''..''
            in clean_loop rooted (length out') out' (tl cs))
         else clean_loop rooted dotdot out (tl cs))
      else
        (let out' = (if rooted \<and> length out \<noteq> 1 \<or> \<not> rooted \<and> length out \<noteq> 0
                     then out @ [CHR ''/''] else out)
         in clean_loop rooted dotdot
              (out' @ takeWhile (\<lambda>x. x \<noteq> CHR ''/'') (c # cs))
              (dropWhile (\<lambda>x. x \<noteq> CHR ''/'') (c # cs))))"
  by pat_completeness auto
termination
proof (relation "measure (\<lambda>(rooted, dotdot, out, p). length p)")
  show "wf (measure (\<lambda>(rooted, dotdot, out, p). length p))"
    by simp
next
  fix rooted :: bool and dotdot :: nat and out :: string and c :: char and cs :: string
    and x :: string
  assume "c \<noteq> CHR ''/''"
  then have "dropWhile (\<lambda>x. x \<noteq> CHR ''/'') (c # cs) = dropWhile (\<lambda>x. x \<noteq> CHR ''/'') cs"
    by simp
  moreover have "length (dropWhile (\<lambda>x. x \<noteq> CHR ''/'') cs) \<le> length cs"
    by (rule length_dropWhile_le)
  ultimately show
    "((rooted, dotdot, x @ takeWhile (\<lambda>x. x \<noteq> CHR ''/'') (c # cs),
       dropWhile (\<lambda>x. x \<noteq> CHR ''/'') (c # cs)),
      (rooted, dotdot, out, c # cs)) \<in> measure (\<lambda>(rooted, dotdot, out, p). length p)"
    by simp
qed (auto simp: less_Suc_eq_le intro: le_trans [OF diff_le_self])

definition Clean :: "string \<Rightarrow> string" where
  "Clean path =
     (if path = [] then ''.''
      else
        (let rooted = (hd path = CHR ''/'');
             out = clean_loop rooted (if rooted then 1 else 0)
                     (if rooted then [CHR ''/''] else []) (if rooted then tl path else path)
         in if out = [] then ''.'' else out))"

text \<open>\<^verbatim>\<open>filepath.Join\<close> of two elements: empty elements are ignored, the result is cleaned.\<close>

definition Join :: "string \<Rightarrow> string \<Rightarrow> string" where
  "Join a b =
     (if a \<noteq> [] then Clean (a @ [CHR ''/''] @ b)
      else if b \<noteq> [] then Clean b
      else [])"

section \<open>The directory tree and the archive writer\<close>

text \<open>
  What the walk finds on disk. A tree holds regular files and directories, and no file
  changes while it is read (the size reported by \<^verbatim>\<open>Info\<close> is the length of the
  content). Every operating-system call the walk makes on a node can fail:
  \<^item> \<open>File info_err open_err content read_err\<close>: the error of \<^verbatim>\<open>d.Info()\<close>, the error of
    \<^verbatim>\<open>os.Open\<close>, the content, and a read failure \<open>(n, e)\<close> that strikes after \<open>n\<close> bytes;
  \<^item> \<open>Dir entries readdir_err\<close>: the entries \<^verbatim>\<open>os.ReadDir\<close> returns, in its order, and
    its error.
  The file system maps the root path handed to \<^verbatim>\<open>os.Lstat\<close> to an error or a node.
\<close>

datatype fsnode =
    File "error option" "error option" string "(nat \<times> error) option"
  | Dir "(string \<times> fsnode) list" "error option"

type_synonym filesystem = "string \<Rightarrow> error + fsnode"

text \<open>
  The bytes that reach the pipe, by archive item: the header of an entry (its name
  and size), content bytes, and the end-of-archive marker written by \<^verbatim>\<open>tw.Close\<close>.
  The writer remembers how many content bytes the current entry still lacks (\<open>nb\<close>).
  The consumer is taken to read the pipe to its end, so no write to the pipe fails.
\<close>

datatype tar_item = Header string nat | Data string | Footer

record tar_writer =
  items :: "tar_item list"
  nb :: nat

definition NewWriter :: tar_writer where
  "NewWriter = \<lparr>items = [], nb = 0\<rparr>"

text \<open>\<^verbatim>\<open>tw.WriteHeader\<close>: refuses while the previous entry is incomplete.\<close>

definition WriteHeader :: "string \<Rightarrow> nat \<Rightarrow> tar_writer \<Rightarrow> error option \<times> tar_writer" where
  "WriteHeader name sz tw =
     (if nb tw > 0 then (Some (Msg ''archive/tar: missed writing bytes''), tw)
      else (None, \<lparr>items = items tw @ [Header name sz], nb = sz\<rparr>))"

text \<open>\<^verbatim>\<open>tw.Write\<close>: at most the announced size is accepted.\<close>

definition Write :: "string \<Rightarrow> tar_writer \<Rightarrow> error option \<times> tar_writer" where
  "Write b tw =
     (if length b > nb tw
      then (Some (Msg ''archive/tar: write too long''),
            \<lparr>items = items tw @ [Data (take (nb tw) b)], nb = 0\<rparr>)
      else (None, \<lparr>items = items tw @ [Data b], nb = nb tw - length b\<rparr>))"

text \<open>
  \<^verbatim>\<open>tw.Close\<close>: the end-of-archive marker, unless the last entry is incomplete. The
  deferred call in \<^verbatim>\<open>tarDirectory\<close> drops the error, so only the writer is returned.
\<close>

definition Close :: "tar_writer \<Rightarrow> tar_writer" where
  "Close tw = (if nb tw > 0 then tw else tw\<lparr>items := items tw @ [Footer]\<rparr>)"

text \<open>
  \<^verbatim>\<open>io.Copy(tw, file)\<close> on an opened file: the bytes read before the failure (all of
  them when there is none) are written; a write error comes first, then the read error.
\<close>

definition Copy :: "string \<Rightarrow> (nat \<times> error) option \<Rightarrow> tar_writer \<Rightarrow> error option \<times> tar_writer" where
  "Copy content read_err tw =
     (let b = (case read_err of None \<Rightarrow> content | Some (n, e) \<Rightarrow> take n content) in
      case Write b tw of
        (Some e, tw') \<Rightarrow> (Some e, tw')
      | (None, tw') \<Rightarrow> (map_option snd read_err, tw'))"

section \<open>\<^verbatim>\<open>tarDirectory\<close> (docker.go)\<close>

text \<open>
  The function literal passed to \<^verbatim>\<open>filepath.WalkDir\<close>, closed over \<open>dirPath\<close> and the
  archive writer. \<open>d\<close> is \<open>None\<close> for Go's nil entry, which \<^verbatim>\<open>WalkDir\<close> passes only
  together with an error; with a nil entry and no error Go would dereference nil.
  \<^verbatim>\<open>tar.FileInfoHeader\<close> does not fail on a regular file.
\<close>

definition walkFn ::
  "string \<Rightarrow> string \<Rightarrow> fsnode option \<Rightarrow> error option \<Rightarrow> tar_writer \<Rightarrow> error option \<times> tar_writer"
where
  "walkFn dirPath path d err tw =
     (case err of
        Some e \<Rightarrow> (Some e, tw)
      | None \<Rightarrow>
        (case d of
           None \<Rightarrow> (Some (Msg ''nil pointer dereference''), tw)
         | Some (Dir es re) \<Rightarrow> (None, tw)
         | Some (File info_err open_err content read_err) \<Rightarrow>
           (case info_err of
              Some e \<Rightarrow> (Some e, tw)
            | None \<Rightarrow>
              (let relativePath = TrimPrefix path dirPath;
                   relativePath = TrimPrefix relativePath [CHR ''/'']
               in case WriteHeader relativePath (length content) tw of
                    (Some e, tw') \<Rightarrow> (Some e, tw')
                  | (None, tw') \<Rightarrow>
                    (case open_err of
                       Some e \<Rightarrow> (Some e, tw')
                     | None \<Rightarrow> Copy content read_err tw')))))"

text \<open>
  \<^verbatim>\<open>filepath.WalkDir\<close> and its helper \<^verbatim>\<open>walkDir\<close> (Go standard library). The callback
  returns only errors of the operating system and of the archive writer, never the
  \<^verbatim>\<open>SkipDir\<close> and \<^verbatim>\<open>SkipAll\<close> sentinels, so their branches do not arise.
\<close>

type_synonym walk_fn =
  "string \<Rightarrow> fsnode option \<Rightarrow> error option \<Rightarrow> tar_writer \<Rightarrow> error option \<times> tar_writer"

fun walkDir :: "walk_fn \<Rightarrow> string \<Rightarrow> fsnode \<Rightarrow> tar_writer \<Rightarrow> error option \<times> tar_writer"
  and walkDirs :: "walk_fn \<Rightarrow> string \<Rightarrow> (string \<times> fsnode) list \<Rightarrow> tar_writer \<Rightarrow> error option \<times> tar_writer"
where
  "walkDir fn path (File ie oe c re) tw = fn path (Some (File ie oe c re)) None tw"
| "walkDir fn path (Dir es re) tw =
     (case fn path (Some (Dir es re)) None tw of
        (Some e, tw') \<Rightarrow> (Some e, tw')
      | (None, tw') \<Rightarrow>
        (case re of
           None \<Rightarrow> walkDirs fn path es tw'
         | Some e \<Rightarrow>
           (case fn path (Some (Dir es re)) (Some e) tw' of
              (Some e', tw'') \<Rightarrow> (Some e', tw'')
            | (None, tw'') \<Rightarrow> walkDirs fn path es tw'')))"
| "walkDirs fn path [] tw = (None, tw)"
| "walkDirs fn path (nd # ds) tw =
     (case walkDir fn (Join path (fst nd)) (snd nd) tw of
        (Some e, tw') \<Rightarrow> (Some e, tw')
      | (None, tw') \<Rightarrow> walkDirs fn path ds tw')"

definition WalkDir :: "filesystem \<Rightarrow> string \<Rightarrow> walk_fn \<Rightarrow> tar_writer \<Rightarrow> error option \<times> tar_writer" where
  "WalkDir fs root fn tw =
     (case fs root of
        Inl e \<Rightarrow> fn root None (Some e) tw
      | Inr info \<Rightarrow> walkDir fn root info tw)"

text \<open>
  What a consumer reading the returned pipe to its end observes: the archive items,
  then the terminal condition, \<open>None\<close> for \<^verbatim>\<open>io.EOF\<close> and \<open>Some e\<close> for the error given
  to \<^verbatim>\<open>pw.CloseWithError\<close>.
\<close>

record stream =
  contents :: "tar_item list"
  terminal :: "error option"

text \<open>
  \<^verbatim>\<open>tarDirectory\<close> returns the read end of the pipe and a nil error; the goroutine
  writes the archive and its deferred function closes writer and pipe.
\<close>

definition tarDirectory :: "filesystem \<Rightarrow> string \<Rightarrow> stream \<times> error option" where
  "tarDirectory fs dirPath =
     (let (walkErr, tw) = WalkDir fs dirPath (walkFn dirPath) NewWriter;
          tw = Close tw
      in (\<lparr>contents = items tw, terminal = walkErr\<rparr>, None))"

text \<open>The names of the entries of a stream, in order.\<close>

fun entry_names :: "tar_item list \<Rightarrow> string list" where
  "entry_names [] = []"
| "entry_names (Header name sz # xs) = name # entry_names xs"
| "entry_names (x # xs) = entry_names xs"

section \<open>Credentials: \<^verbatim>\<open>encoding/json\<close> and \<^verbatim>\<open>encoding/base64\<close>\<close>

text \<open>
  The anonymous struct of \<^verbatim>\<open>PushImage\<close>, with its JSON field names. \<^verbatim>\<open>json.Marshal\<close>
  of a struct of two strings cannot fail; the only value ever marshalled is the zero
  value, whose empty strings need no escaping.
\<close>

record credentials =
  Username :: string
  Password :: string

definition json_string :: "string \<Rightarrow> string" where
  "json_string s = [CHR 0x22] @ s @ [CHR 0x22]"

definition json_Marshal :: "credentials \<Rightarrow> string" where
  "json_Marshal c =
     ''{'' @ json_string ''username'' @ '':'' @ json_string (Username c) @ '',''
           @ json_string ''password'' @ '':'' @ json_string (Password c) @ ''}''"

text \<open>\<^verbatim>\<open>base64.StdEncoding.EncodeToString\<close>: three bytes give four characters, padded with \<open>=\<close>.\<close>

definition encodeStd :: string where
  "encodeStd = ''ABCDEFGHIJKLMNOPQRSTUVWXYZabcdefghijklmnopqrstuvwxyz0123456789+/''"

definition enc :: "nat \<Rightarrow> char" where
  "enc v = encodeStd ! (v mod 64)"

fun EncodeToString :: "string \<Rightarrow> string" where
  "EncodeToString [] = []"
| "EncodeToString [a] =
     (let val = of_char a * 65536 :: nat
      in [enc (val div 262144), enc (val div 4096), CHR ''='', CHR ''=''])"
| "EncodeToString [a, b] =
     (let val = of_char a * 65536 + of_char b * 256 :: nat
      in [enc (val div 262144), enc (val div 4096), enc (val div 64), CHR ''=''])"
| "EncodeToString (a # b # c # src) =
     (let val = of_char a * 65536 + of_char b * 256 + of_char c :: nat
      in [enc (val div 262144), enc (val div 4096), enc (val div 64), enc val]
         @ EncodeToString src)"

definition credentialsJSONBase64 :: string where
  "credentialsJSONBase64 = EncodeToString (json_Marshal \<lparr>Username = [], Password = []\<rparr>)"

section \<open>The container runtime, the provisioning engine and the host\<close>

text \<open>
  The package drives three systems it does not implement: the container runtime (through
  its client), the provisioning engine (the \<^verbatim>\<open>kind\<close> provider) and the host's files.
  Every call to them is an event of the trace, with its arguments.
\<close>

type_synonym duration = int

definition Minute :: duration where
  "Minute = 60000000000"

record PortMap =
  Protocol :: string
  Host :: int
  Container :: int

datatype call =
    NewClientWithOpts
  | ImagePull string
  | ImageBuild string stream
  | ImagePush string string
  | ImageRemove string
  | ContainerInspect string
  | ContainerCreate string string "PortMap list"
  | ContainerStart string
  | ContainerWait duration string
  | NetworkConnect string string
  | ContainerRemove string
  | ProviderList
  | ProviderKubeConfig string
  | ProviderCreate string string duration
  | ProviderDelete string
  | CreateTemp string
  | TemplateExecute string string
  | OsRemove string

text \<open>
  The behaviour of the surroundings, fixed for a run:
  \<^item> \<open>faults n c\<close>: the message, if any, of the failure of call \<open>c\<close> when it is the
    \<open>n\<close>-th event of the trace; \<open>body_faults\<close>: the same for reading the response body
    of a call that succeeded. Such a failure is a \<open>Msg\<close>: that an object does not exist
    is an answer that follows from the state, not a failure of the call;
  \<^item> \<open>kubeconfig_of\<close>: the credentials document the engine issues for a cluster;
  \<^item> \<open>networks_of\<close>: the networks an inspection reports for a container, in the order
    in which the iteration over Go's map yields them;
  \<^item> \<open>container_id\<close>: the identifier the runtime gives to a new container;
  \<^item> \<open>temp_name\<close>: the name \<^verbatim>\<open>os.CreateTemp\<close> chooses;
  \<^item> \<open>answered_after\<close>: the time after which a wait on a container is answered (never,
    for \<open>None\<close>), and \<open>wait_error\<close>: the \<^verbatim>\<open>Error\<close> message of that response;
  \<^item> \<open>template_err\<close>: the error of parsing the embedded configuration template (the
    template file is not part of the sources);
  \<^item> \<open>rest_config_err\<close>, \<open>clientset_err\<close>: the errors of the two client-library
    constructors for a credentials document;
  \<^item> \<open>fsys\<close>: the host's directory trees.
\<close>

record env =
  faults :: "nat \<Rightarrow> call \<Rightarrow> string option"
  body_faults :: "nat \<Rightarrow> call \<Rightarrow> string option"
  kubeconfig_of :: "string \<Rightarrow> string"
  networks_of :: "string \<Rightarrow> string list"
  container_id :: "string \<Rightarrow> string"
  temp_name :: "nat \<Rightarrow> string"
  answered_after :: "string \<Rightarrow> duration option"
  wait_error :: "string \<Rightarrow> string option"
  template_err :: "error option"
  rest_config_err :: "string \<Rightarrow> error option"
  clientset_err :: "string \<Rightarrow> error option"
  fsys :: filesystem

text \<open>
  The state: the clusters the engine knows, the containers of the runtime (by name),
  the scratch files on the host, the calls made so far, and the package-level variables
  \<^verbatim>\<open>_clientOnce\<close> and \<^verbatim>\<open>_clientErr\<close> of docker.go.
\<close>

record world =
  clusters :: "string list"
  containers :: "string list"
  files :: "string list"
  trace :: "call list"
  clientOnce :: bool
  clientErr :: "error option"

text \<open>A call is recorded; the surroundings decide whether it fails.\<close>

definition external :: "env \<Rightarrow> call \<Rightarrow> world \<Rightarrow> error option \<times> world" where
  "external ev c w =
     (map_option Msg (faults ev (length (trace w)) c), w\<lparr>trace := trace w @ [c]\<rparr>)"

text \<open>Reading the response body of the call made last.\<close>

definition read_body :: "env \<Rightarrow> call \<Rightarrow> world \<Rightarrow> error option" where
  "read_body ev c w = map_option Msg (body_faults ev (length (trace w)) c)"

subsection \<open>The runtime's client\<close>

text \<open>An inspection finds a container by its name and reports its networks.\<close>

definition cli_ContainerInspect :: "env \<Rightarrow> string \<Rightarrow> world \<Rightarrow> (error + string list) \<times> world" where
  "cli_ContainerInspect ev name w =
     (case external ev (ContainerInspect name) w of
        (Some e, w') \<Rightarrow> (Inl e, w')
      | (None, w') \<Rightarrow>
        (if name \<in> set (containers w') then (Inr (networks_of ev name), w')
         else (Inl (NotFound name), w')))"

text \<open>A container is created unless its name is taken.\<close>

definition cli_ContainerCreate ::
  "env \<Rightarrow> string \<Rightarrow> string \<Rightarrow> PortMap list \<Rightarrow> world \<Rightarrow> (error + string) \<times> world"
where
  "cli_ContainerCreate ev name img pms w =
     (case external ev (ContainerCreate name img pms) w of
        (Some e, w') \<Rightarrow> (Inl e, w')
      | (None, w') \<Rightarrow>
        (if name \<in> set (containers w') then (Inl (Msg ''Conflict. The container name is already in use''), w')
         else (Inr (container_id ev name), w'\<lparr>containers := containers w' @ [name]\<rparr>)))"

text \<open>A removal (by name) fails when there is no such container.\<close>

definition cli_ContainerRemove :: "env \<Rightarrow> string \<Rightarrow> world \<Rightarrow> error option \<times> world" where
  "cli_ContainerRemove ev name w =
     (case external ev (ContainerRemove name) w of
        (Some e, w') \<Rightarrow> (Some e, w')
      | (None, w') \<Rightarrow>
        (if name \<in> set (containers w')
         then (None, w'\<lparr>containers := removeAll name (containers w')\<rparr>)
         else (Some (NotFound name), w')))"

text \<open>
  A wait under a context that expires after \<open>timeout\<close>. It delivers an error on the
  error channel or a response, which may carry an error message, on the response
  channel. When the context expires before the runtime answers, the error is the
  context's \<^verbatim>\<open>DeadlineExceeded\<close>.
\<close>

definition cli_ContainerWait ::
  "env \<Rightarrow> duration \<Rightarrow> string \<Rightarrow> world \<Rightarrow> (error + string option) \<times> world"
where
  "cli_ContainerWait ev timeout containerID w =
     (case external ev (ContainerWait timeout containerID) w of
        (Some e, w') \<Rightarrow> (Inl e, w')
      | (None, w') \<Rightarrow>
        (case answered_after ev containerID of
           None \<Rightarrow> (Inl DeadlineExceeded, w')
         | Some d \<Rightarrow>
           (if d \<le> timeout then (Inr (wait_error ev containerID), w')
            else (Inl DeadlineExceeded, w'))))"

subsection \<open>The provisioning engine\<close>

definition provider_List :: "env \<Rightarrow> world \<Rightarrow> (error + string list) \<times> world" where
  "provider_List ev w =
     (case external ev ProviderList w of
        (Some e, w') \<Rightarrow> (Inl e, w')
      | (None, w') \<Rightarrow> (Inr (clusters w'), w'))"

definition provider_KubeConfig :: "env \<Rightarrow> string \<Rightarrow> world \<Rightarrow> (error + string) \<times> world" where
  "provider_KubeConfig ev name w =
     (case external ev (ProviderKubeConfig name) w of
        (Some e, w') \<Rightarrow> (Inl e, w')
      | (None, w') \<Rightarrow>
        (if name \<in> set (clusters w') then (Inr (kubeconfig_of ev name), w')
         else (Inl (Msg ''could not locate any control plane nodes''), w')))"

text \<open>
  A creation adds the cluster and its control-plane node, a container named after the
  cluster; it fails when the cluster exists.
\<close>

definition provider_Create ::
  "env \<Rightarrow> string \<Rightarrow> string \<Rightarrow> duration \<Rightarrow> world \<Rightarrow> error option \<times> world"
where
  "provider_Create ev name configFile timeout w =
     (case external ev (ProviderCreate name configFile timeout) w of
        (Some e, w') \<Rightarrow> (Some e, w')
      | (None, w') \<Rightarrow>
        (if name \<in> set (clusters w')
         then (Some (Msg ''node(s) already exist for a cluster with the name''), w')
         else (None, w'\<lparr>clusters := clusters w' @ [name],
                         containers := containers w' @ [name @ ''-control-plane'']\<rparr>)))"

definition provider_Delete :: "env \<Rightarrow> string \<Rightarrow> world \<Rightarrow> error option \<times> world" where
  "provider_Delete ev name w =
     (case external ev (ProviderDelete name) w of
        (Some e, w') \<Rightarrow> (Some e, w')
      | (None, w') \<Rightarrow>
        (None, w'\<lparr>clusters := removeAll name (clusters w'),
                   containers := removeAll (name @ ''-control-plane'') (containers w')\<rparr>))"

subsection \<open>The host's scratch files\<close>

definition os_CreateTemp :: "env \<Rightarrow> string \<Rightarrow> world \<Rightarrow> (error + string) \<times> world" where
  "os_CreateTemp ev pattern w =
     (case external ev (CreateTemp pattern) w of
        (Some e, w') \<Rightarrow> (Inl e, w')
      | (None, w') \<Rightarrow>
        (let file = temp_name ev (length (trace w))
         in (Inr file, w'\<lparr>files := files w' @ [file]\<rparr>)))"

definition os_Remove :: "env \<Rightarrow> string \<Rightarrow> world \<Rightarrow> error option \<times> world" where
  "os_Remove ev name w =
     (case external ev (OsRemove name) w of
        (Some e, w') \<Rightarrow> (Some e, w')
      | (None, w') \<Rightarrow>
        (if name \<in> set (files w') then (None, w'\<lparr>files := removeAll name (files w')\<rparr>)
         else (Some (Msg ''no such file or directory''), w')))"

section \<open>docker.go\<close>

text \<open>
  \<^verbatim>\<open>getClient\<close>: the client is constructed at the first call, under \<^verbatim>\<open>sync.Once\<close>; the
  outcome is kept in \<^verbatim>\<open>_clientErr\<close> and returned by every later call.
\<close>

definition getClient :: "env \<Rightarrow> world \<Rightarrow> error option \<times> world" where
  "getClient ev w =
     (if clientOnce w then (clientErr w, w)
      else
        (case external ev NewClientWithOpts w of
           (Some e, w') \<Rightarrow>
             (Some (Errorf ''failed to create docker client'' e),
              w'\<lparr>clientOnce := True,
                 clientErr := Some (Errorf ''failed to create docker client'' e)\<rparr>)
         | (None, w') \<Rightarrow> (None, w'\<lparr>clientOnce := True, clientErr := None\<rparr>)))"

definition PullImage :: "env \<Rightarrow> string \<Rightarrow> world \<Rightarrow> error option \<times> world" where
  "PullImage ev name w =
     (case getClient ev w of
        (Some err, w1) \<Rightarrow> (Some err, w1)
      | (None, w1) \<Rightarrow>
        (case external ev (ImagePull name) w1 of
           (Some err, w2) \<Rightarrow> (Some (Errorf ''failed to pull image'' err), w2)
         | (None, w2) \<Rightarrow>
           (case read_body ev (ImagePull name) w2 of
              Some err \<Rightarrow> (Some (Errorf ''failed to read image pull response'' err), w2)
            | None \<Rightarrow> (None, w2))))"

definition BuildImage :: "env \<Rightarrow> string \<Rightarrow> stream \<Rightarrow> world \<Rightarrow> error option \<times> world" where
  "BuildImage ev name contextTarBall w =
     (case getClient ev w of
        (Some err, w1) \<Rightarrow> (Some err, w1)
      | (None, w1) \<Rightarrow>
        (case external ev (ImageBuild name contextTarBall) w1 of
           (Some err, w2) \<Rightarrow> (Some (Errorf ''failed to build image'' err), w2)
         | (None, w2) \<Rightarrow>
           (case read_body ev (ImageBuild name contextTarBall) w2 of
              Some err \<Rightarrow> (Some (Errorf ''failed to read image build response'' err), w2)
            | None \<Rightarrow> (None, w2))))"

definition GetContainerNetworks ::
  "env \<Rightarrow> string \<Rightarrow> world \<Rightarrow> (error + string list) \<times> world"
where
  "GetContainerNetworks ev containerName w =
     (case getClient ev w of
        (Some err, w1) \<Rightarrow> (Inl err, w1)
      | (None, w1) \<Rightarrow>
        (case cli_ContainerInspect ev containerName w1 of
           (Inl err, w2) \<Rightarrow> (Inl (Errorf ''failed to inspect container'' err), w2)
         | (Inr networks, w2) \<Rightarrow> (Inr networks, w2)))"

definition CreateContainer ::
  "env \<Rightarrow> string \<Rightarrow> string \<Rightarrow> PortMap list \<Rightarrow> world \<Rightarrow> (error + string) \<times> world"
where
  "CreateContainer ev name img portMappings w =
     (case getClient ev w of
        (Some err, w1) \<Rightarrow> (Inl err, w1)
      | (None, w1) \<Rightarrow>
        (case cli_ContainerCreate ev name img portMappings w1 of
           (Inl err, w2) \<Rightarrow> (Inl (Errorf ''failed to create container'' err), w2)
         | (Inr ident, w2) \<Rightarrow> (Inr ident, w2)))"

definition StartContainer :: "env \<Rightarrow> string \<Rightarrow> world \<Rightarrow> error option \<times> world" where
  "StartContainer ev containerID w =
     (case getClient ev w of
        (Some err, w1) \<Rightarrow> (Some err, w1)
      | (None, w1) \<Rightarrow>
        (case external ev (ContainerStart containerID) w1 of
           (Some err, w2) \<Rightarrow> (Some (Errorf ''failed to start container'' err), w2)
         | (None, w2) \<Rightarrow> (None, w2)))"

text \<open>
  \<^verbatim>\<open>WaitForContainerReady\<close>: the \<^verbatim>\<open>select\<close> receives from the response channel or from
  the error channel, whichever the wait delivers on. The message of a response's error
  is formatted with \<^verbatim>\<open>%s\<close>, so nothing is wrapped.
\<close>

definition WaitForContainerReady ::
  "env \<Rightarrow> duration \<Rightarrow> string \<Rightarrow> world \<Rightarrow> error option \<times> world"
where
  "WaitForContainerReady ev timeout containerID w =
     (case getClient ev w of
        (Some err, w1) \<Rightarrow> (Some err, w1)
      | (None, w1) \<Rightarrow>
        (let timeout = (if timeout = 0 then 1 * Minute else timeout) in
         case cli_ContainerWait ev timeout containerID w1 of
           (Inr resp, w2) \<Rightarrow>
             (case resp of
                Some message \<Rightarrow> (Some (Msg (''container exited with error: '' @ message)), w2)
              | None \<Rightarrow> (None, w2))
         | (Inl err, w2) \<Rightarrow> (Some (Errorf ''failed to wait for container'' err), w2)))"

definition AttachContainerToNetwork ::
  "env \<Rightarrow> string \<Rightarrow> string \<Rightarrow> world \<Rightarrow> error option \<times> world"
where
  "AttachContainerToNetwork ev containerName networkName w =
     (case getClient ev w of
        (Some err, w1) \<Rightarrow> (Some err, w1)
      | (None, w1) \<Rightarrow>
        (case external ev (NetworkConnect networkName containerName) w1 of
           (Some err, w2) \<Rightarrow> (Some (Errorf ''failed to attach container to network'' err), w2)
         | (None, w2) \<Rightarrow> (None, w2)))"

definition ContainerExists :: "env \<Rightarrow> string \<Rightarrow> world \<Rightarrow> (error + bool) \<times> world" where
  "ContainerExists ev name w =
     (case getClient ev w of
        (Some err, w1) \<Rightarrow> (Inl err, w1)
      | (None, w1) \<Rightarrow>
        (case cli_ContainerInspect ev name w1 of
           (Inl err, w2) \<Rightarrow>
             (if IsErrNotFound err then (Inr False, w2)
              else (Inl (Errorf ''failed to inspect container'' err), w2))
         | (Inr info, w2) \<Rightarrow> (Inr True, w2)))"

definition RemoveContainer :: "env \<Rightarrow> string \<Rightarrow> world \<Rightarrow> error option \<times> world" where
  "RemoveContainer ev containerID w =
     (case getClient ev w of
        (Some err, w1) \<Rightarrow> (Some err, w1)
      | (None, w1) \<Rightarrow>
        (case cli_ContainerRemove ev containerID w1 of
           (Some err, w2) \<Rightarrow> (Some (Errorf ''failed to remove container'' err), w2)
         | (None, w2) \<Rightarrow> (None, w2)))"

definition PushImage :: "env \<Rightarrow> string \<Rightarrow> world \<Rightarrow> error option \<times> world" where
  "PushImage ev name w =
     (case getClient ev w of
        (Some err, w1) \<Rightarrow> (Some err, w1)
      | (None, w1) \<Rightarrow>
        (let credentialsJSON = json_Marshal \<lparr>Username = [], Password = []\<rparr>;
             credentialsJSONBase64 = EncodeToString credentialsJSON
         in case external ev (ImagePush name credentialsJSONBase64) w1 of
              (Some err, w2) \<Rightarrow> (Some (Errorf ''failed to push image'' err), w2)
            | (None, w2) \<Rightarrow>
              (case read_body ev (ImagePush name credentialsJSONBase64) w2 of
                 Some err \<Rightarrow> (Some (Errorf ''failed to read image push response'' err), w2)
               | None \<Rightarrow> (None, w2))))"

definition DeleteImage :: "env \<Rightarrow> string \<Rightarrow> world \<Rightarrow> error option \<times> world" where
  "DeleteImage ev name w =
     (case getClient ev w of
        (Some err, w1) \<Rightarrow> (Some err, w1)
      | (None, w1) \<Rightarrow>
        (case external ev (ImageRemove name) w1 of
           (Some err, w2) \<Rightarrow> (Some (Errorf ''failed to remove image'' err), w2)
         | (None, w2) \<Rightarrow> (None, w2)))"

definition PushImageToClusterRegistry ::
  "env \<Rightarrow> string \<Rightarrow> string \<Rightarrow> world \<Rightarrow> error option \<times> world"
where
  "PushImageToClusterRegistry ev imageName contextDir w =
     (case tarDirectory (fsys ev) contextDir of
        (contextTarball, Some err) \<Rightarrow> (Some (Errorf ''failed to create tarball'' err), w)
      | (contextTarball, None) \<Rightarrow>
        (let registryImage = ''localhost:5000/'' @ imageName in
         case BuildImage ev registryImage contextTarball w of
           (Some err, w1) \<Rightarrow> (Some (Errorf ''failed to build image'' err), w1)
         | (None, w1) \<Rightarrow>
           (case PushImage ev registryImage w1 of
              (Some err, w2) \<Rightarrow>
                (Some (Errorf ''failed to push image to cluster registry'' err), w2)
            | (None, w2) \<Rightarrow>
              (case DeleteImage ev registryImage w2 of
                 (Some err, w3) \<Rightarrow>
                   (Some (Errorf ''failed to delete image from local docker'' err), w3)
               | (None, w3) \<Rightarrow> (None, w3)))))"

section \<open>cluster.go\<close>

text \<open>
  A call either returns a value, returns an error, or panics (Go's run-time panic on an
  index out of range).
\<close>

datatype 'a result = Ok 'a | Err error | Panic string

text \<open>
  \<^verbatim>\<open>writeOutConfigTemplate\<close>: the deferred \<^verbatim>\<open>file.Close()\<close> changes nothing that is
  modelled. The name of the file is returned only when the template was written.
\<close>

definition writeOutConfigTemplate :: "env \<Rightarrow> string \<Rightarrow> world \<Rightarrow> (error + string) \<times> world" where
  "writeOutConfigTemplate ev address w =
     (case template_err ev of
        Some err \<Rightarrow> (Inl (Errorf ''failed to parse config template'' err), w)
      | None \<Rightarrow>
        (case os_CreateTemp ev ''kind-config-*.yaml'' w of
           (Inl err, w1) \<Rightarrow> (Inl (Errorf ''failed to create temp file'' err), w1)
         | (Inr file, w1) \<Rightarrow>
           (case external ev (TemplateExecute file address) w1 of
              (Some err, w2) \<Rightarrow> (Inl (Errorf ''failed to execute config template'' err), w2)
            | (None, w2) \<Rightarrow> (Inr file, w2))))"

definition createRegistryInNetwork :: "env \<Rightarrow> string \<Rightarrow> world \<Rightarrow> unit result \<times> world" where
  "createRegistryInNetwork ev clusterName w =
     (case PullImage ev ''registry:2'' w of
        (Some err, w1) \<Rightarrow> (Err (Errorf ''failed to pull registry image'' err), w1)
      | (None, w1) \<Rightarrow>
        (let registryContainerName = clusterName @ ''-registry'' in
         case ContainerExists ev registryContainerName w1 of
           (Inl err, w2) \<Rightarrow>
             (Err (Errorf ''failed to check if registry container exists'' err), w2)
         | (Inr True, w2) \<Rightarrow> (Ok (), w2)
         | (Inr False, w2) \<Rightarrow>
           (case CreateContainer ev registryContainerName ''registry:2''
                   [\<lparr>Protocol = ''tcp'', Host = 5000, Container = 5000\<rparr>] w2 of
              (Inl err, w3) \<Rightarrow> (Err (Errorf ''failed to create registry container'' err), w3)
            | (Inr registryContainerID, w3) \<Rightarrow>
              (let clusterControlPlaneNodeName = clusterName @ ''-control-plane'' in
               case GetContainerNetworks ev clusterControlPlaneNodeName w3 of
                 (Inl err, w4) \<Rightarrow>
                   (Err (Errorf ''failed to get container networks'' err), w4)
               | (Inr clusterNetworks, w4) \<Rightarrow>
                 (case clusterNetworks of
                    [] \<Rightarrow> (Panic ''index out of range [0] with length 0'', w4)
                  | clusterNetwork # rest \<Rightarrow>
                    (case AttachContainerToNetwork ev registryContainerID clusterNetwork w4 of
                       (Some err, w5) \<Rightarrow>
                         (Err (Errorf ''failed to attach registry container to network'' err), w5)
                     | (None, w5) \<Rightarrow>
                       (case StartContainer ev registryContainerID w5 of
                          (Some err, w6) \<Rightarrow>
                            (Err (Errorf ''failed to start registry container'' err), w6)
                        | (None, w6) \<Rightarrow> (Ok (), w6))))))))"

text \<open>
  The handle. \<open>Clientset\<close> stands for the client built from the credentials document.
  The \<^verbatim>\<open>Delete\<close> field is a closure over the \<open>name\<close> given to \<^verbatim>\<open>NewCluster\<close> and over
  the provider: the function \<open>Delete\<close> below, applied to that name.
\<close>

record Cluster =
  Name :: string
  Kubeconfig :: string
  Clientset :: string

definition Delete :: "env \<Rightarrow> string \<Rightarrow> world \<Rightarrow> error option \<times> world" where
  "Delete ev name w =
     (let registryName = name @ ''-registry'';
          (r1, w1) = RemoveContainer ev registryName w;
          errs = (case r1 of
                    Some err \<Rightarrow> [Some (Errorf ''failed to remove registry container'' err)]
                  | None \<Rightarrow> []);
          (r2, w2) = provider_Delete ev name w1;
          errs = (case r2 of
                    Some err \<Rightarrow> errs @ [Some (Errorf ''failed to delete cluster'' err)]
                  | None \<Rightarrow> errs)
      in (errors_Join errs, w2))"

text \<open>\<^verbatim>\<open>NewCluster\<close>, lines 99 to 133: the client, the registry, the handle.\<close>

definition NewCluster_connect :: "env \<Rightarrow> string \<Rightarrow> string \<Rightarrow> world \<Rightarrow> Cluster result \<times> world" where
  "NewCluster_connect ev name kubeconfig w =
     (case rest_config_err ev kubeconfig of
        Some err \<Rightarrow> (Err (Errorf ''failed to create client config'' err), w)
      | None \<Rightarrow>
        (case clientset_err ev kubeconfig of
           Some err \<Rightarrow> (Err (Errorf ''failed to create clientset'' err), w)
         | None \<Rightarrow>
           (case createRegistryInNetwork ev name w of
              (Err err, w1) \<Rightarrow> (Err (Errorf ''failed to create registry in network'' err), w1)
            | (Panic p, w1) \<Rightarrow> (Panic p, w1)
            | (Ok u, w1) \<Rightarrow>
              (Ok \<lparr>Name = name, Kubeconfig = kubeconfig, Clientset = kubeconfig\<rparr>, w1))))"

text \<open>
  \<^verbatim>\<open>NewCluster\<close>, lines 84 to 97 and what follows them, once the configuration file
  is written: the part of the function that runs under the deferred \<^verbatim>\<open>os.Remove\<close>.
\<close>

definition NewCluster_create ::
  "env \<Rightarrow> string \<Rightarrow> duration \<Rightarrow> string \<Rightarrow> world \<Rightarrow> Cluster result \<times> world"
where
  "NewCluster_create ev name timeout configFilePath w =
     (case provider_Create ev name configFilePath timeout w of
        (Some err, w1) \<Rightarrow> (Err (Errorf ''failed to create cluster'' err), w1)
      | (None, w1) \<Rightarrow>
        (case provider_KubeConfig ev name w1 of
           (Inl err, w2) \<Rightarrow> (Err (Errorf ''failed to get kubeconfig'' err), w2)
         | (Inr kubeconfig, w2) \<Rightarrow> NewCluster_connect ev name kubeconfig w2))"

text \<open>
  \<^verbatim>\<open>NewCluster\<close>. The loop over the listed clusters asks for the credentials at the first
  name that matches, and stops. A deferred call runs when the function returns or
  panics, whatever the block it was registered in; the error of \<^verbatim>\<open>os.Remove\<close> is dropped.
\<close>

definition NewCluster :: "env \<Rightarrow> string \<Rightarrow> duration \<Rightarrow> world \<Rightarrow> Cluster result \<times> world" where
  "NewCluster ev name timeout w =
     (case provider_List ev w of
        (Inl err, w1) \<Rightarrow> (Err (Errorf ''failed to list clusters'' err), w1)
      | (Inr listed, w1) \<Rightarrow>
        (case (if name \<in> set listed then provider_KubeConfig ev name w1 else (Inr [], w1)) of
           (Inl err, w2) \<Rightarrow> (Err (Errorf ''failed to get kubeconfig'' err), w2)
         | (Inr kubeconfig, w2) \<Rightarrow>
           (if kubeconfig = [] then
              (case writeOutConfigTemplate ev (name @ ''-registry:5000'') w2 of
                 (Inl err, w3) \<Rightarrow>
                   (Err (Errorf ''failed to write out config template'' err), w3)
               | (Inr configFilePath, w3) \<Rightarrow>
                 (let (r, w4) = NewCluster_create ev name timeout configFilePath w3
                  in (r, snd (os_Remove ev configFilePath w4))))
            else NewCluster_connect ev name kubeconfig w2)))"

text \<open>The other methods of the handle.\<close>

definition BuildAndPushImage ::
  "env \<Rightarrow> Cluster \<Rightarrow> string \<Rightarrow> string \<Rightarrow> world \<Rightarrow> error option \<times> world"
where
  "BuildAndPushImage ev c imageName localPath w =
     PushImageToClusterRegistry ev imageName localPath w"

definition RegistryName :: "Cluster \<Rightarrow> string" where
  "RegistryName c = Name c @ ''-registry:5000''"

definition ImageName :: "Cluster \<Rightarrow> string \<Rightarrow> string" where
  "ImageName c img = RegistryName c @ ''/'' @ img"

section \<open>Notions used to state the properties\<close>

text \<open>
  The first failure a walk of a tree runs into, in the order of the walk: a directory
  is read before its entries are visited, the entries are visited in order, and a file
  is examined, opened and read. This follows the words of the specification (directory
  entry error, stat failure, file-open failure, read failure), not the code.
\<close>

fun first_fault :: "fsnode \<Rightarrow> error option"
  and first_faults :: "(string \<times> fsnode) list \<Rightarrow> error option"
where
  "first_fault (File info_err open_err content read_err) =
     (case info_err of
        Some e \<Rightarrow> Some e
      | None \<Rightarrow> (case open_err of Some e \<Rightarrow> Some e | None \<Rightarrow> map_option snd read_err))"
| "first_fault (Dir es readdir_err) =
     (case readdir_err of Some e \<Rightarrow> Some e | None \<Rightarrow> first_faults es)"
| "first_faults [] = None"
| "first_faults (nd # ds) =
     (case first_fault (snd nd) of Some e \<Rightarrow> Some e | None \<Rightarrow> first_faults ds)"

definition walk_fault :: "filesystem \<Rightarrow> string \<Rightarrow> error option" where
  "walk_fault fs root = (case fs root of Inl e \<Rightarrow> Some e | Inr d \<Rightarrow> first_fault d)"

text \<open>The calls made between two states, and the creations among them.\<close>

definition issued :: "world \<Rightarrow> world \<Rightarrow> call list" where
  "issued w w' = drop (length (trace w)) (trace w')"

fun is_cluster_creation :: "call \<Rightarrow> bool" where
  "is_cluster_creation (ProviderCreate name configFile timeout) = True"
| "is_cluster_creation c = False"

fun is_container_creation :: "call \<Rightarrow> bool" where
  "is_container_creation (ContainerCreate name img pms) = True"
| "is_container_creation c = False"

definition cluster_creations :: "call list \<Rightarrow> nat" where
  "cluster_creations cs = length (filter is_cluster_creation cs)"

definition container_creations :: "call list \<Rightarrow> nat" where
  "container_creations cs = length (filter is_container_creation cs)"

text \<open>
  A step from one state to a later one that makes \<open>m\<close> cluster creations and \<open>n\<close>
  container creations; a quiet step makes none and leaves clusters and containers as
  they are.
\<close>

definition creating_step :: "world \<Rightarrow> world \<Rightarrow> nat \<Rightarrow> nat \<Rightarrow> bool" where
  "creating_step w w' m n \<longleftrightarrow>
     (\<exists>xs. trace w' = trace w @ xs \<and> cluster_creations xs = m \<and> container_creations xs = n)"

definition quiet_step :: "world \<Rightarrow> world \<Rightarrow> bool" where
  "quiet_step w w' \<longleftrightarrow>
     (\<exists>xs. trace w' = trace w @ xs \<and> cluster_creations xs = 0 \<and> container_creations xs = 0)
     \<and> clusters w' = clusters w \<and> containers w' = containers w"

text \<open>
  The client has been constructed, without error: \<^verbatim>\<open>getClient\<close> returns it and makes
  no call.
\<close>

definition client_ready :: "world \<Rightarrow> bool" where
  "client_ready w \<longleftrightarrow> clientOnce w \<and> clientErr w = None"

text \<open>
  The calls of a \<^verbatim>\<open>NewCluster\<close> that creates cluster and registry, from the state it
  starts in: the listing, the configuration file, the creation of the cluster and its
  credentials, the construction of the client if it is the first use, then the pull,
  the existence check, the creation of the registry container, the inspection of the
  control-plane node, the attachment to its first network, the start, and the removal of
  the configuration file.
\<close>

definition fresh_calls :: "env \<Rightarrow> string \<Rightarrow> duration \<Rightarrow> world \<Rightarrow> call list" where
  "fresh_calls ev name timeout w =
     (let configFilePath = temp_name ev (Suc (length (trace w)));
          registryContainerID = container_id ev (name @ ''-registry'');
          clusterNetwork = hd (networks_of ev (name @ ''-control-plane''))
      in [ProviderList, CreateTemp ''kind-config-*.yaml'',
          TemplateExecute configFilePath (name @ ''-registry:5000''),
          ProviderCreate name configFilePath timeout, ProviderKubeConfig name]
         @ (if clientOnce w then [] else [NewClientWithOpts])
         @ [ImagePull ''registry:2'', ContainerInspect (name @ ''-registry''),
            ContainerCreate (name @ ''-registry'') ''registry:2''
              [\<lparr>Protocol = ''tcp'', Host = 5000, Container = 5000\<rparr>],
            ContainerInspect (name @ ''-control-plane''),
            NetworkConnect clusterNetwork registryContainerID,
            ContainerStart registryContainerID, OsRemove configFilePath])"

text \<open>
  The calls of a \<^verbatim>\<open>NewCluster\<close> that reuses cluster and registry: the listing, the
  fetch of the credentials, the pull, and the existence check after which the registry
  step returns.
\<close>

definition reuse_calls :: "string \<Rightarrow> call list" where
  "reuse_calls name =
     [ProviderList, ProviderKubeConfig name, ImagePull ''registry:2'',
      ContainerInspect (name @ ''-registry'')]"

text \<open>The runtime answers a wait on the container within the given time.\<close>

definition answered_within :: "env \<Rightarrow> string \<Rightarrow> duration \<Rightarrow> bool" where
  "answered_within ev containerID timeout =
     (case answered_after ev containerID of None \<Rightarrow> False | Some d \<Rightarrow> d \<le> timeout)"

text \<open>The calls that concern images.\<close>

fun is_image_call :: "call \<Rightarrow> bool" where
  "is_image_call (ImagePull ref) = True"
| "is_image_call (ImageBuild tag ctx) = True"
| "is_image_call (ImagePush ref auth) = True"
| "is_image_call (ImageRemove ref) = True"
| "is_image_call c = False"

section \<open>Concrete surroundings\<close>

text \<open>
  A build context with the files \<^verbatim>\<open>a.txt\<close> and \<^verbatim>\<open>sub/b.txt\<close>, reachable as
  \<^verbatim>\<open>./my-service\<close> (the path of the README's example) and as \<^verbatim>\<open>/src/my-service\<close>.
\<close>

definition service_tree :: fsnode where
  "service_tree =
     Dir [(''a.txt'', File None None ''hello'' None),
          (''sub'', Dir [(''b.txt'', File None None ''world'' None)] None)] None"

definition service_fs :: filesystem where
  "service_fs p =
     (if p = ''./my-service'' \<or> p = ''/src/my-service'' then Inr service_tree
      else Inl (Msg ''no such file or directory''))"

text \<open>The same tree, where \<^verbatim>\<open>sub/b.txt\<close> cannot be opened, followed by a third file.\<close>

definition locked_fs :: filesystem where
  "locked_fs p =
     (if p = ''/src/my-service'' then
        Inr (Dir [(''a.txt'', File None None ''hello'' None),
                  (''sub'', Dir [(''b.txt'', File None (Some (Msg ''permission denied''))
                                             ''world'' None)] None),
                  (''z.txt'', File None None ''last'' None)] None)
      else Inl (Msg ''no such file or directory''))"


text \<open>Surroundings in which nothing fails, and a host with no cluster and no container.\<close>

definition quiet_env :: env where
  "quiet_env =
     \<lparr>faults = (\<lambda>n c. None), body_faults = (\<lambda>n c. None),
      kubeconfig_of = (\<lambda>name. ''apiVersion: v1''),
      networks_of = (\<lambda>name. [''kind'']),
      container_id = (\<lambda>name. ''id-'' @ name),
      temp_name = (\<lambda>n. ''/tmp/kind-config-1.yaml''),
      answered_after = (\<lambda>containerID. Some 1000),
      wait_error = (\<lambda>containerID. None),
      template_err = None,
      rest_config_err = (\<lambda>kubeconfig. None),
      clientset_err = (\<lambda>kubeconfig. None),
      fsys = service_fs\<rparr>"

definition empty_world :: world where
  "empty_world =
     \<lparr>clusters = [], containers = [], files = [], trace = [],
      clientOnce = False, clientErr = None\<rparr>"

text \<open>
  A host on which the cluster \<^verbatim>\<open>dev\<close> runs without its registry container, and whose
  control-plane node has been disconnected from every network.
\<close>

definition isolated_env :: env where
  "isolated_env = quiet_env\<lparr>networks_of := (\<lambda>name. [])\<rparr>"

definition isolated_world :: world where
  "isolated_world = empty_world\<lparr>clusters := [''dev''], containers := [''dev-control-plane'']\<rparr>"

text \<open>A host whose scratch directory accepts a new file but no content.\<close>

definition full_disk_env :: env where
  "full_disk_env =
     quiet_env\<lparr>faults := (\<lambda>n c. case c of
                                   TemplateExecute file address \<Rightarrow> Some ''no space left on device''
                                 | _ \<Rightarrow> None)\<rparr>"

text \<open>A runtime that never answers a wait.\<close>

definition silent_env :: env where
  "silent_env = quiet_env\<lparr>answered_after := (\<lambda>containerID. None)\<rparr>"

text \<open>A runtime that can remove nothing and an engine that can delete nothing.\<close>

definition stuck_env :: env where
  "stuck_env =
     quiet_env\<lparr>faults := (\<lambda>n c. case c of
                                   ContainerRemove name \<Rightarrow> Some ''removal in progress''
                                 | ProviderDelete name \<Rightarrow> Some ''failed to delete nodes''
                                 | _ \<Rightarrow> None)\<rparr>"

text \<open>A runtime that cannot remove the image it has just pushed.\<close>

definition busy_env :: env where
  "busy_env =
     quiet_env\<lparr>faults := (\<lambda>n c. case c of
                                   ImageRemove ref \<Rightarrow> Some ''image is being used''
                                 | _ \<Rightarrow> None)\<rparr>"

text \<open>A registry that refuses every push.\<close>

definition refusing_env :: env where
  "refusing_env =
     quiet_env\<lparr>faults := (\<lambda>n c. case c of
                                   ImagePush ref auth \<Rightarrow> Some ''connection refused''
                                 | _ \<Rightarrow> None)\<rparr>"

section \<open>The build context stream\<close>

lemma walkFn_File:
  assumes "nb tw = 0"
  shows "fst (walkFn dp path (Some (File ie oe c re)) None tw) = first_fault (File ie oe c re)"
    and "first_fault (File ie oe c re) = None \<Longrightarrow>
         nb (snd (walkFn dp path (Some (File ie oe c re)) None tw)) = 0"
  using assms
  by (auto simp: walkFn_def WriteHeader_def Copy_def Write_def Let_def
      split: option.splits prod.splits)

lemma walk_first_fault:
  "nb tw = 0 \<Longrightarrow> fst (walkDir (walkFn dp) path d tw) = first_fault d \<and>
     (first_fault d = None \<longrightarrow> nb (snd (walkDir (walkFn dp) path d tw)) = 0)"
  "nb tw = 0 \<Longrightarrow> fst (walkDirs (walkFn dp) path ds tw) = first_faults ds \<and>
     (first_faults ds = None \<longrightarrow> nb (snd (walkDirs (walkFn dp) path ds tw)) = 0)"
proof (induction "walkFn dp" path d tw and "walkFn dp" path ds tw rule: walkDir_walkDirs.induct)
  case (1 path ie oe c re tw)
  then show ?case using walkFn_File [where tw = tw] by simp
next
  case (2 path es re tw)
  have fn: "walkFn dp path (Some (Dir es re)) None tw = (None, tw)"
    by (simp add: walkFn_def)
  show ?case
  proof (cases re)
    case None
    with 2 fn show ?thesis by simp
  next
    case (Some e)
    then show ?thesis using fn by (simp add: walkFn_def)
  qed
next
  case (3 path tw)
  then show ?case by simp
next
  case (4 path nd ds tw)
  obtain r tw' where w: "walkDir (walkFn dp) (Join path (fst nd)) (snd nd) tw = (r, tw')"
    by (cases "walkDir (walkFn dp) (Join path (fst nd)) (snd nd) tw")
  from 4(1) [OF \<open>nb tw = 0\<close>] w
  have r: "first_fault (snd nd) = r" and nb: "r = None \<Longrightarrow> nb tw' = 0"
    by auto
  show ?case
  proof (cases r)
    case None
    with 4(2) [OF w [symmetric]] w r nb show ?thesis by simp
  next
    case (Some e)
    with w r show ?thesis by simp
  qed
qed

lemma terminal_walk_fault: "terminal (fst (tarDirectory fs dirPath)) = walk_fault fs dirPath"
proof (cases "fs dirPath")
  case (Inl e)
  then show ?thesis
    by (simp add: tarDirectory_def WalkDir_def walk_fault_def walkFn_def)
next
  case (Inr d)
  have "fst (walkDir (walkFn dirPath) dirPath d NewWriter) = first_fault d"
    using walk_first_fault(1) [of NewWriter dirPath dirPath d] by (simp add: NewWriter_def)
  with Inr show ?thesis
    by (simp add: tarDirectory_def WalkDir_def walk_fault_def case_prod_beta)
qed

lemma tarDirectory_nil_error: "snd (tarDirectory fs dirPath) = None"
  by (simp add: tarDirectory_def case_prod_beta)

text \<open>
  C4. The claim: for every root directory, the names of the entries are the paths of
  the files relative to the root, \<^verbatim>\<open>a.txt\<close> and \<^verbatim>\<open>sub/b.txt\<close> for a tree with these two
  files. The walk reports cleaned paths, so the prefix \<^verbatim>\<open>./my-service\<close> is not found in
  \<^verbatim>\<open>my-service/a.txt\<close> and nothing is stripped: under the root of the README's example
  every entry keeps the name of the root directory. Under the absolute root the names
  are as claimed.
\<close>

theorem tarDirectory_relative_root_keeps_directory:
  "entry_names (contents (fst (tarDirectory service_fs ''./my-service'')))
     = [''my-service/a.txt'', ''my-service/sub/b.txt'']
   \<and> entry_names (contents (fst (tarDirectory service_fs ''/src/my-service'')))
     = [''a.txt'', ''sub/b.txt'']"
  by code_simp

text \<open>
  C5. Whatever the root and the tree, the stream ends with the first error of the walk:
  the consumer reads that error where the archive stops, and reads the end of the
  file only when the walk met no error.
\<close>

theorem tarDirectory_delivers_walk_error:
  "terminal (fst (tarDirectory fs dirPath)) = walk_fault fs dirPath
   \<and> (\<forall>e. walk_fault fs dirPath = Some e \<longrightarrow> terminal (fst (tarDirectory fs dirPath)) = Some e)"
  by (simp add: terminal_walk_fault)

theorem tarDirectory_delivers_walk_error_witness:
  "walk_fault locked_fs ''/src/my-service'' = Some (Msg ''permission denied'')
   \<and> terminal (fst (tarDirectory locked_fs ''/src/my-service'')) = Some (Msg ''permission denied'')"
  using tarDirectory_delivers_walk_error [of locked_fs "''/src/my-service''"]
  by (simp add: walk_fault_def locked_fs_def)



section \<open>The image publisher\<close>

lemma credentials_value:
  "EncodeToString (json_Marshal \<lparr>Username = [], Password = []\<rparr>)
     = ''eyJ1c2VybmFtZSI6IiIsInBhc3N3b3JkIjoiIn0=''"
  by (simp add: json_Marshal_def json_string_def enc_def encodeStd_def)

lemma getClient_trace:
  "getClient ev w = (r, w1) \<Longrightarrow>
     (trace w1 = trace w \<or> trace w1 = trace w @ [NewClientWithOpts])
     \<and> clientOnce w1 \<and> clientErr w1 = r
     \<and> (clientOnce w \<longrightarrow> clientErr w1 = clientErr w)"
  by (auto simp: getClient_def external_def split: if_splits option.splits)

lemma BuildImage_calls:
  "BuildImage ev tag ctx w = (r, w1) \<Longrightarrow>
     (\<exists>xs. trace w1 = trace w @ xs
         \<and> filter is_image_call xs = (if clientErr w1 = None then [ImageBuild tag ctx] else [])
         \<and> (r = None \<longrightarrow> clientErr w1 = None))
     \<and> clientOnce w1 \<and> (clientOnce w \<longrightarrow> clientErr w1 = clientErr w)"
  by (auto simp: BuildImage_def external_def read_body_def
        split: option.splits prod.splits dest!: getClient_trace)

lemma PushImage_calls:
  "PushImage ev tag w = (r, w1) \<Longrightarrow>
     (\<exists>xs. trace w1 = trace w @ xs
         \<and> filter is_image_call xs
             = (if clientErr w1 = None then [ImagePush tag credentialsJSONBase64] else [])
         \<and> (r = None \<longrightarrow> clientErr w1 = None))
     \<and> clientOnce w1 \<and> (clientOnce w \<longrightarrow> clientErr w1 = clientErr w)"
  by (auto simp: PushImage_def external_def read_body_def credentialsJSONBase64_def Let_def
        split: option.splits prod.splits dest!: getClient_trace)

lemma DeleteImage_calls:
  "DeleteImage ev tag w = (r, w1) \<Longrightarrow>
     (\<exists>xs. trace w1 = trace w @ xs
         \<and> filter is_image_call xs = (if clientErr w1 = None then [ImageRemove tag] else [])
         \<and> (r = None \<longrightarrow> clientErr w1 = None))
     \<and> clientOnce w1 \<and> (clientOnce w \<longrightarrow> clientErr w1 = clientErr w)"
  by (auto simp: DeleteImage_def external_def
        split: option.splits prod.splits dest!: getClient_trace)

lemma issued_append: "trace w' = trace w @ xs \<Longrightarrow> issued w w' = xs"
  by (simp add: issued_def)

text \<open>
  C9. The authentication value of a push is one fixed string, the base64 encoding of the
  JSON object with an empty user name and an empty password: every push that
  \<^verbatim>\<open>PushImage\<close> makes, for whatever reference, surroundings and state, carries it, and
  a push is made whenever the client is available.
\<close>

theorem PushImage_fixed_auth:
  "credentialsJSONBase64 = ''eyJ1c2VybmFtZSI6IiIsInBhc3N3b3JkIjoiIn0=''
   \<and> credentialsJSONBase64 = EncodeToString (json_Marshal \<lparr>Username = [], Password = []\<rparr>)
   \<and> (\<forall>ref auth. ImagePush ref auth \<in> set (issued w (snd (PushImage ev name w)))
          \<longrightarrow> ref = name \<and> auth = credentialsJSONBase64)
   \<and> (fst (getClient ev w) = None
          \<longrightarrow> ImagePush name credentialsJSONBase64 \<in> set (issued w (snd (PushImage ev name w))))"
  by (auto simp: credentialsJSONBase64_def credentials_value PushImage_def getClient_def
        external_def read_body_def issued_def Let_def
        split: option.splits prod.splits if_splits)

theorem PushImage_fixed_auth_witness:
  "fst (getClient quiet_env empty_world) = None
   \<and> ImagePush ''localhost:5000/svc:latest'' ''eyJ1c2VybmFtZSI6IiIsInBhc3N3b3JkIjoiIn0=''
       \<in> set (issued empty_world (snd (PushImage quiet_env ''localhost:5000/svc:latest'' empty_world)))"
proof -
  have h: "fst (getClient quiet_env empty_world) = None"
    by code_simp
  show ?thesis
    using h PushImage_fixed_auth [where ev = quiet_env and w = empty_world
        and name = "''localhost:5000/svc:latest''"]
    by simp
qed

text \<open>
  C6. The publish pipeline calls the runtime for images in this order and with one tag,
  \<^verbatim>\<open>localhost:5000/<imageName>\<close>: build from the context stream, push, removal. When
  it succeeds it has made the three calls. When it fails, the error is wrapped with the
  phase that failed and no call of a later phase has been made. Step by step: a build
  that fails makes the call return the wrapped error in the state the build left, with
  no push and no removal; a push that fails after the build makes it return the wrapped
  error in the state the push left, with no removal; a removal that fails after the
  push makes it return the wrapped error; and it returns nil only when the three steps
  succeeded.
\<close>

theorem PushImageToClusterRegistry_pipeline:
  fixes ev :: env and imageName contextDir :: string and w :: world
  defines "tag \<equiv> ''localhost:5000/'' @ imageName"
      and "ctx \<equiv> fst (tarDirectory (fsys ev) contextDir)"
      and "r \<equiv> fst (PushImageToClusterRegistry ev imageName contextDir w)"
      and "w' \<equiv> snd (PushImageToClusterRegistry ev imageName contextDir w)"
      and "calls \<equiv> filter is_image_call
                     (issued w (snd (PushImageToClusterRegistry ev imageName contextDir w)))"
  shows "(r = None \<longrightarrow>
            calls = [ImageBuild tag ctx, ImagePush tag credentialsJSONBase64, ImageRemove tag])
       \<and> (\<forall>e. r = Some e \<longrightarrow>
            (\<exists>e'. e = Errorf ''failed to build image'' e'
                  \<and> (calls = [] \<or> calls = [ImageBuild tag ctx]))
          \<or> (\<exists>e'. e = Errorf ''failed to push image to cluster registry'' e'
                  \<and> calls = [ImageBuild tag ctx, ImagePush tag credentialsJSONBase64])
          \<or> (\<exists>e'. e = Errorf ''failed to delete image from local docker'' e'
                  \<and> calls = [ImageBuild tag ctx, ImagePush tag credentialsJSONBase64,
                              ImageRemove tag]))
       \<and> (let (rb, w1) = BuildImage ev tag ctx w;
               (rp, w2) = PushImage ev tag w1;
               (rd, w3) = DeleteImage ev tag w2
           in case rb of
                Some e \<Rightarrow>
                  r = Some (Errorf ''failed to build image'' e) \<and> w' = w1
                  \<and> (calls = [] \<or> calls = [ImageBuild tag ctx])
              | None \<Rightarrow>
                (case rp of
                   Some e \<Rightarrow>
                     r = Some (Errorf ''failed to push image to cluster registry'' e) \<and> w' = w2
                     \<and> calls = [ImageBuild tag ctx, ImagePush tag credentialsJSONBase64]
                 | None \<Rightarrow>
                   (case rd of
                      Some e \<Rightarrow>
                        r = Some (Errorf ''failed to delete image from local docker'' e)
                        \<and> w' = w3
                        \<and> calls = [ImageBuild tag ctx, ImagePush tag credentialsJSONBase64,
                                    ImageRemove tag]
                    | None \<Rightarrow>
                        r = None \<and> w' = w3
                        \<and> calls = [ImageBuild tag ctx, ImagePush tag credentialsJSONBase64,
                                    ImageRemove tag])))"
proof -
  have tar: "tarDirectory (fsys ev) contextDir = (ctx, None)"
    by (simp add: ctx_def tarDirectory_def case_prod_beta)
  obtain rb w1 where b: "BuildImage ev tag ctx w = (rb, w1)"
    by (cases "BuildImage ev tag ctx w")
  obtain rp w2 where p: "PushImage ev tag w1 = (rp, w2)"
    by (cases "PushImage ev tag w1")
  obtain rd w3 where d: "DeleteImage ev tag w2 = (rd, w3)"
    by (cases "DeleteImage ev tag w2")
  from BuildImage_calls [OF b] obtain xs where
    xs: "trace w1 = trace w @ xs"
        "filter is_image_call xs = (if clientErr w1 = None then [ImageBuild tag ctx] else [])"
        "rb = None \<longrightarrow> clientErr w1 = None" "clientOnce w1"
    by blast
  from PushImage_calls [OF p] obtain ys where
    ys: "trace w2 = trace w1 @ ys"
        "filter is_image_call ys
           = (if clientErr w2 = None then [ImagePush tag credentialsJSONBase64] else [])"
        "clientOnce w2" "clientOnce w1 \<longrightarrow> clientErr w2 = clientErr w1"
    by blast
  from DeleteImage_calls [OF d] obtain zs where
    zs: "trace w3 = trace w2 @ zs"
        "filter is_image_call zs = (if clientErr w3 = None then [ImageRemove tag] else [])"
        "clientOnce w2 \<longrightarrow> clientErr w3 = clientErr w2"
    by blast
  show ?thesis
  proof (cases rb)
    case (Some e)
    note rb = this
    with tar b have res: "PushImageToClusterRegistry ev imageName contextDir w
        = (Some (Errorf ''failed to build image'' e), w1)"
      by (simp add: PushImageToClusterRegistry_def tag_def)
    have c: "calls = [] \<or> calls = [ImageBuild tag ctx]"
      using res xs by (simp add: calls_def issued_append)
    from res have "r = Some (Errorf ''failed to build image'' e)" "w' = w1"
      by (simp_all add: r_def w'_def)
    with c rb b p d show ?thesis
      by simp
  next
    case None
    note rb = this
    with xs have c1: "clientErr w1 = None" by simp
    with ys xs have c2: "clientErr w2 = None" by simp
    with zs ys have c3: "clientErr w3 = None" by simp
    show ?thesis
    proof (cases rp)
      case (Some e)
      note rp = this
      with tar b rb p have res: "PushImageToClusterRegistry ev imageName contextDir w
          = (Some (Errorf ''failed to push image to cluster registry'' e), w2)"
        by (simp add: PushImageToClusterRegistry_def tag_def)
      have "trace w2 = trace w @ (xs @ ys)" using xs ys by simp
      with res xs ys c1 c2
      have c: "calls = [ImageBuild tag ctx, ImagePush tag credentialsJSONBase64]"
        by (simp add: calls_def issued_append)
      from res have "r = Some (Errorf ''failed to push image to cluster registry'' e)" "w' = w2"
        by (simp_all add: r_def w'_def)
      with c rb rp b p d show ?thesis
        by simp
    next
      case None
      note rp = this
      have t3: "trace w3 = trace w @ (xs @ ys @ zs)" using xs ys zs by simp
      show ?thesis
      proof (cases rd)
        case (Some e)
        note rd = this
        with tar b rb p rp d have res: "PushImageToClusterRegistry ev imageName contextDir w
            = (Some (Errorf ''failed to delete image from local docker'' e), w3)"
          by (simp add: PushImageToClusterRegistry_def tag_def)
        with xs ys zs c1 c2 c3 t3
        have c: "calls = [ImageBuild tag ctx, ImagePush tag credentialsJSONBase64,
                          ImageRemove tag]"
          by (simp add: calls_def issued_append)
        from res
        have "r = Some (Errorf ''failed to delete image from local docker'' e)" "w' = w3"
          by (simp_all add: r_def w'_def)
        with c rb rp rd b p d show ?thesis
          by simp
      next
        case None
        note rd = this
        with tar b rb p rp d
        have res: "PushImageToClusterRegistry ev imageName contextDir w = (None, w3)"
          by (simp add: PushImageToClusterRegistry_def tag_def)
        with xs ys zs c1 c2 c3 t3
        have c: "calls = [ImageBuild tag ctx, ImagePush tag credentialsJSONBase64,
                          ImageRemove tag]"
          by (simp add: calls_def issued_append)
        from res have "r = None" "w' = w3"
          by (simp_all add: r_def w'_def)
        with c rb rp rd b p d show ?thesis
          by simp
      qed
    qed
  qed
qed

theorem PushImageToClusterRegistry_pipeline_witness:
  "fst (PushImageToClusterRegistry quiet_env ''svc:latest'' ''/src/my-service'' empty_world) = None
   \<and> filter is_image_call (issued empty_world
        (snd (PushImageToClusterRegistry quiet_env ''svc:latest'' ''/src/my-service'' empty_world)))
     = [ImageBuild ''localhost:5000/svc:latest'' (fst (tarDirectory service_fs ''/src/my-service'')),
        ImagePush ''localhost:5000/svc:latest'' credentialsJSONBase64,
        ImageRemove ''localhost:5000/svc:latest'']
   \<and> fst (PushImageToClusterRegistry busy_env ''svc:latest'' ''/src/my-service'' empty_world)
     = Some (Errorf ''failed to delete image from local docker''
              (Errorf ''failed to remove image'' (Msg ''image is being used'')))
   \<and> filter is_image_call (issued empty_world
        (snd (PushImageToClusterRegistry busy_env ''svc:latest'' ''/src/my-service'' empty_world)))
     = [ImageBuild ''localhost:5000/svc:latest'' (fst (tarDirectory service_fs ''/src/my-service'')),
        ImagePush ''localhost:5000/svc:latest'' credentialsJSONBase64,
        ImageRemove ''localhost:5000/svc:latest'']
   \<and> fst (PushImageToClusterRegistry refusing_env ''svc:latest'' ''/src/my-service'' empty_world)
     = Some (Errorf ''failed to push image to cluster registry''
              (Errorf ''failed to push image'' (Msg ''connection refused'')))
   \<and> filter is_image_call (issued empty_world
        (snd (PushImageToClusterRegistry refusing_env ''svc:latest'' ''/src/my-service''
               empty_world)))
     = [ImageBuild ''localhost:5000/svc:latest'' (fst (tarDirectory service_fs ''/src/my-service'')),
        ImagePush ''localhost:5000/svc:latest'' credentialsJSONBase64]"
proof -
  obtain ctx where t: "tarDirectory service_fs ''/src/my-service'' = (ctx, None)"
    using tarDirectory_nil_error [of service_fs "''/src/my-service''"]
    by (cases "tarDirectory service_fs ''/src/my-service''") simp
  have ok: "fst (PushImageToClusterRegistry quiet_env ''svc:latest'' ''/src/my-service'' empty_world)
      = None"
    by (simp add: PushImageToClusterRegistry_def t BuildImage_def PushImage_def DeleteImage_def
          getClient_def external_def read_body_def quiet_env_def empty_world_def Let_def)
  have ko: "fst (PushImageToClusterRegistry busy_env ''svc:latest'' ''/src/my-service'' empty_world)
      = Some (Errorf ''failed to delete image from local docker''
               (Errorf ''failed to remove image'' (Msg ''image is being used'')))"
    by (simp add: PushImageToClusterRegistry_def t BuildImage_def PushImage_def DeleteImage_def
          getClient_def external_def read_body_def busy_env_def quiet_env_def empty_world_def
          Let_def)
  have no: "fst (PushImageToClusterRegistry refusing_env ''svc:latest'' ''/src/my-service''
                  empty_world)
      = Some (Errorf ''failed to push image to cluster registry''
               (Errorf ''failed to push image'' (Msg ''connection refused'')))"
    by (simp add: PushImageToClusterRegistry_def t BuildImage_def PushImage_def DeleteImage_def
          getClient_def external_def read_body_def refusing_env_def quiet_env_def
          empty_world_def Let_def)
  have fs: "fsys quiet_env = service_fs" "fsys busy_env = service_fs"
    "fsys refusing_env = service_fs"
    by (simp_all add: quiet_env_def busy_env_def refusing_env_def)
  note tq = PushImageToClusterRegistry_pipeline [of quiet_env "''svc:latest''"
      "''/src/my-service''" empty_world, THEN conjunct1]
  note tb = PushImageToClusterRegistry_pipeline [of busy_env "''svc:latest''"
      "''/src/my-service''" empty_world, THEN conjunct2, THEN conjunct1]
  note tr = PushImageToClusterRegistry_pipeline [of refusing_env "''svc:latest''"
      "''/src/my-service''" empty_world, THEN conjunct2, THEN conjunct1]
  have a: "filter is_image_call (issued empty_world
        (snd (PushImageToClusterRegistry quiet_env ''svc:latest'' ''/src/my-service'' empty_world)))
     = [ImageBuild ''localhost:5000/svc:latest'' (fst (tarDirectory service_fs ''/src/my-service'')),
        ImagePush ''localhost:5000/svc:latest'' credentialsJSONBase64,
        ImageRemove ''localhost:5000/svc:latest'']"
    using tq ok fs by simp
  have b: "filter is_image_call (issued empty_world
        (snd (PushImageToClusterRegistry busy_env ''svc:latest'' ''/src/my-service'' empty_world)))
     = [ImageBuild ''localhost:5000/svc:latest'' (fst (tarDirectory service_fs ''/src/my-service'')),
        ImagePush ''localhost:5000/svc:latest'' credentialsJSONBase64,
        ImageRemove ''localhost:5000/svc:latest'']"
    using tb ko fs by simp
  have c: "filter is_image_call (issued empty_world
        (snd (PushImageToClusterRegistry refusing_env ''svc:latest'' ''/src/my-service''
               empty_world)))
     = [ImageBuild ''localhost:5000/svc:latest'' (fst (tarDirectory service_fs ''/src/my-service'')),
        ImagePush ''localhost:5000/svc:latest'' credentialsJSONBase64]"
    using tr no fs by simp
  from ok ko no a b c show ?thesis
    by blast
qed

lemma WaitForContainerReady_normalises:
  "WaitForContainerReady ev 0 containerID w = WaitForContainerReady ev Minute containerID w"
proof -
  have "Minute \<noteq> 0"
    by (simp add: Minute_def)
  then show ?thesis
    by (simp add: WaitForContainerReady_def Let_def split: prod.splits option.splits)
qed

lemma WaitForContainerReady_call:
  "fst (getClient ev w) = None \<Longrightarrow>
     issued (snd (getClient ev w)) (snd (WaitForContainerReady ev timeout containerID w))
       = [ContainerWait (if timeout = 0 then Minute else timeout) containerID]"
  by (auto simp: WaitForContainerReady_def cli_ContainerWait_def external_def issued_def Let_def
        split: option.splits prod.splits)

lemma WaitForContainerReady_result:
  "fst (getClient ev w) = None \<Longrightarrow>
   faults ev (length (trace (snd (getClient ev w)))) (ContainerWait Minute containerID) = None \<Longrightarrow>
     fst (WaitForContainerReady ev 0 containerID w)
       = (if answered_within ev containerID Minute
          then map_option (\<lambda>message. Msg (''container exited with error: '' @ message))
                 (wait_error ev containerID)
          else Some (Errorf ''failed to wait for container'' DeadlineExceeded))"
  by (auto simp: WaitForContainerReady_def cli_ContainerWait_def external_def
        answered_within_def Let_def split: option.splits prod.splits)

lemma WaitForContainerReady_expires:
  "\<not> answered_within ev containerID Minute \<Longrightarrow>
     \<exists>e. fst (WaitForContainerReady ev 0 containerID w) = Some e"
  by (auto simp: WaitForContainerReady_def cli_ContainerWait_def external_def
        answered_within_def Let_def split: option.splits prod.splits)

text \<open>
  C8. A wait with a zero timeout is the wait with a timeout of one minute: with the
  client available, the one call it makes is the wait with the deadline of one minute
  (any other timeout is passed as given). When the runtime answers within the minute
  the call returns what the answer says, nil for an answer without error; when it does
  not, the call returns an error, the wrapped \<^verbatim>\<open>DeadlineExceeded\<close> of the context
  unless the client or the request itself failed first.
\<close>

theorem WaitForContainerReady_zero_timeout:
  "WaitForContainerReady ev 0 containerID w = WaitForContainerReady ev Minute containerID w
   \<and> (\<not> answered_within ev containerID Minute \<longrightarrow>
        (\<exists>e. fst (WaitForContainerReady ev 0 containerID w) = Some e))
   \<and> (\<not> answered_within ev containerID Minute \<and> fst (getClient ev w) = None
        \<and> faults ev (length (trace (snd (getClient ev w)))) (ContainerWait Minute containerID)
            = None \<longrightarrow>
        fst (WaitForContainerReady ev 0 containerID w)
          = Some (Errorf ''failed to wait for container'' DeadlineExceeded)
        \<and> errors_Is (Errorf ''failed to wait for container'' DeadlineExceeded) DeadlineExceeded)
   \<and> (fst (getClient ev w) = None \<longrightarrow>
        issued (snd (getClient ev w)) (snd (WaitForContainerReady ev timeout containerID w))
          = [ContainerWait (if timeout = 0 then Minute else timeout) containerID])
   \<and> (fst (getClient ev w) = None
        \<and> faults ev (length (trace (snd (getClient ev w)))) (ContainerWait Minute containerID)
            = None \<longrightarrow>
        fst (WaitForContainerReady ev 0 containerID w)
          = (if answered_within ev containerID Minute
             then map_option (\<lambda>message. Msg (''container exited with error: '' @ message))
                    (wait_error ev containerID)
             else Some (Errorf ''failed to wait for container'' DeadlineExceeded)))
   \<and> (answered_within ev containerID Minute \<and> wait_error ev containerID = None
        \<and> fst (getClient ev w) = None
        \<and> faults ev (length (trace (snd (getClient ev w)))) (ContainerWait Minute containerID)
            = None \<longrightarrow>
        fst (WaitForContainerReady ev 0 containerID w) = None)"
proof (intro conjI impI)
  show "WaitForContainerReady ev 0 containerID w = WaitForContainerReady ev Minute containerID w"
    by (rule WaitForContainerReady_normalises)
next
  assume "\<not> answered_within ev containerID Minute"
  then show "\<exists>e. fst (WaitForContainerReady ev 0 containerID w) = Some e"
    by (rule WaitForContainerReady_expires)
next
  assume "\<not> answered_within ev containerID Minute \<and> fst (getClient ev w) = None
        \<and> faults ev (length (trace (snd (getClient ev w)))) (ContainerWait Minute containerID)
            = None"
  then show "fst (WaitForContainerReady ev 0 containerID w)
          = Some (Errorf ''failed to wait for container'' DeadlineExceeded)"
    by (simp add: WaitForContainerReady_result)
next
  show "errors_Is (Errorf ''failed to wait for container'' DeadlineExceeded) DeadlineExceeded"
    by simp
next
  assume "fst (getClient ev w) = None"
  then show "issued (snd (getClient ev w)) (snd (WaitForContainerReady ev timeout containerID w))
          = [ContainerWait (if timeout = 0 then Minute else timeout) containerID]"
    by (rule WaitForContainerReady_call)
next
  assume "fst (getClient ev w) = None
        \<and> faults ev (length (trace (snd (getClient ev w)))) (ContainerWait Minute containerID)
            = None"
  then show "fst (WaitForContainerReady ev 0 containerID w)
          = (if answered_within ev containerID Minute
             then map_option (\<lambda>message. Msg (''container exited with error: '' @ message))
                    (wait_error ev containerID)
             else Some (Errorf ''failed to wait for container'' DeadlineExceeded))"
    by (simp add: WaitForContainerReady_result)
next
  assume "answered_within ev containerID Minute \<and> wait_error ev containerID = None
        \<and> fst (getClient ev w) = None
        \<and> faults ev (length (trace (snd (getClient ev w)))) (ContainerWait Minute containerID)
            = None"
  then show "fst (WaitForContainerReady ev 0 containerID w) = None"
    by (simp add: WaitForContainerReady_result)
qed

theorem WaitForContainerReady_zero_timeout_witness:
  "\<not> answered_within silent_env ''dev-registry'' Minute
   \<and> fst (WaitForContainerReady silent_env 0 ''dev-registry'' empty_world)
       = Some (Errorf ''failed to wait for container'' DeadlineExceeded)
   \<and> WaitForContainerReady silent_env 0 ''dev-registry'' empty_world
       = WaitForContainerReady silent_env Minute ''dev-registry'' empty_world
   \<and> issued (snd (getClient silent_env empty_world))
        (snd (WaitForContainerReady silent_env 0 ''dev-registry'' empty_world))
       = [ContainerWait Minute ''dev-registry'']
   \<and> answered_within quiet_env ''dev-registry'' Minute
   \<and> fst (WaitForContainerReady quiet_env 0 ''dev-registry'' empty_world) = None
   \<and> issued (snd (getClient quiet_env empty_world))
        (snd (WaitForContainerReady quiet_env 0 ''dev-registry'' empty_world))
       = [ContainerWait Minute ''dev-registry'']"
proof -
  have h1: "\<not> answered_within silent_env ''dev-registry'' Minute"
    by (simp add: answered_within_def silent_env_def)
  have h2: "fst (getClient silent_env empty_world) = None"
    by code_simp
  have h3: "faults silent_env (length (trace (snd (getClient silent_env empty_world))))
              (ContainerWait Minute ''dev-registry'') = None"
    by (simp add: silent_env_def quiet_env_def)
  have g1: "answered_within quiet_env ''dev-registry'' Minute"
    by (simp add: answered_within_def quiet_env_def Minute_def)
  have g2: "fst (getClient quiet_env empty_world) = None"
    by code_simp
  have g3: "faults quiet_env (length (trace (snd (getClient quiet_env empty_world))))
              (ContainerWait Minute ''dev-registry'') = None"
    by (simp add: quiet_env_def)
  have g4: "wait_error quiet_env ''dev-registry'' = None"
    by (simp add: quiet_env_def)
  note th = WaitForContainerReady_zero_timeout [of silent_env "''dev-registry''" empty_world 0]
  note tq = WaitForContainerReady_zero_timeout [of quiet_env "''dev-registry''" empty_world 0]
  from th have a: "WaitForContainerReady silent_env 0 ''dev-registry'' empty_world
      = WaitForContainerReady silent_env Minute ''dev-registry'' empty_world"
    by (rule conjunct1)
  from th h1 h2 h3
  have b: "fst (WaitForContainerReady silent_env 0 ''dev-registry'' empty_world)
      = Some (Errorf ''failed to wait for container'' DeadlineExceeded)"
    by blast
  from th have "fst (getClient silent_env empty_world) = None \<longrightarrow>
      issued (snd (getClient silent_env empty_world))
        (snd (WaitForContainerReady silent_env 0 ''dev-registry'' empty_world))
       = [ContainerWait (if (0::duration) = 0 then Minute else 0) ''dev-registry'']"
    by blast
  with h2
  have c: "issued (snd (getClient silent_env empty_world))
        (snd (WaitForContainerReady silent_env 0 ''dev-registry'' empty_world))
       = [ContainerWait Minute ''dev-registry'']"
    by simp
  from tq g1 g2 g3 g4
  have d: "fst (WaitForContainerReady quiet_env 0 ''dev-registry'' empty_world) = None"
    by blast
  from tq have "fst (getClient quiet_env empty_world) = None \<longrightarrow>
      issued (snd (getClient quiet_env empty_world))
        (snd (WaitForContainerReady quiet_env 0 ''dev-registry'' empty_world))
       = [ContainerWait (if (0::duration) = 0 then Minute else 0) ''dev-registry'']"
    by blast
  with g2
  have e: "issued (snd (getClient quiet_env empty_world))
        (snd (WaitForContainerReady quiet_env 0 ''dev-registry'' empty_world))
       = [ContainerWait Minute ''dev-registry'']"
    by simp
  from h1 a b c g1 d e show ?thesis
    by blast
qed

section \<open>Teardown\<close>

lemma errors_Is_refl: "errors_Is e e"
  by (cases e) simp_all

text \<open>
  C2. Teardown runs the removal of the registry container and then, whatever came of
  it, the deletion of the cluster: the last call is that deletion. The result joins the
  failures: none gives nil, one gives a joined error of that one, two give a joined
  error of both, the removal's first; each underlying error is found in the result.
\<close>

theorem Delete_aggregates:
  "(let (r1, w1) = RemoveContainer ev (name @ ''-registry'') w;
        (r2, w2) = provider_Delete ev name w1
    in snd (Delete ev name w) = w2
     \<and> last (trace w2) = ProviderDelete name
     \<and> fst (Delete ev name w) =
         (case (r1, r2) of
            (None, None) \<Rightarrow> None
          | (Some e1, None) \<Rightarrow>
              Some (joinError [Errorf ''failed to remove registry container'' e1])
          | (None, Some e2) \<Rightarrow> Some (joinError [Errorf ''failed to delete cluster'' e2])
          | (Some e1, Some e2) \<Rightarrow>
              Some (joinError [Errorf ''failed to remove registry container'' e1,
                               Errorf ''failed to delete cluster'' e2]))
     \<and> (\<forall>e1. r1 = Some e1 \<longrightarrow> (\<exists>e. fst (Delete ev name w) = Some e \<and> errors_Is e e1))
     \<and> (\<forall>e2. r2 = Some e2 \<longrightarrow> (\<exists>e. fst (Delete ev name w) = Some e \<and> errors_Is e e2)))"
  by (auto simp: Delete_def errors_Join_def List.map_filter_simps provider_Delete_def
        external_def Let_def case_prod_beta errors_Is_refl
        split: option.splits prod.splits)

theorem Delete_aggregates_witness:
  "fst (RemoveContainer stuck_env ''dev-registry'' isolated_world)
     = Some (Errorf ''failed to remove container'' (Msg ''removal in progress''))
   \<and> fst (provider_Delete stuck_env ''dev''
            (snd (RemoveContainer stuck_env ''dev-registry'' isolated_world)))
     = Some (Msg ''failed to delete nodes'')
   \<and> fst (Delete stuck_env ''dev'' isolated_world)
     = Some (joinError
         [Errorf ''failed to remove registry container''
            (Errorf ''failed to remove container'' (Msg ''removal in progress'')),
          Errorf ''failed to delete cluster'' (Msg ''failed to delete nodes'')])
   \<and> last (trace (snd (Delete stuck_env ''dev'' isolated_world))) = ProviderDelete ''dev''"
proof -
  have h1: "fst (RemoveContainer stuck_env ''dev-registry'' isolated_world)
      = Some (Errorf ''failed to remove container'' (Msg ''removal in progress''))"
    by code_simp
  have h2: "fst (provider_Delete stuck_env ''dev''
             (snd (RemoveContainer stuck_env ''dev-registry'' isolated_world)))
      = Some (Msg ''failed to delete nodes'')"
    by code_simp
  show ?thesis
    using h1 h2 Delete_aggregates [of stuck_env "''dev''" isolated_world]
    by (simp add: case_prod_beta)
qed

section \<open>Provisioning\<close>

lemma creations_append [simp]:
  "cluster_creations (xs @ ys) = cluster_creations xs + cluster_creations ys"
  "container_creations (xs @ ys) = container_creations xs + container_creations ys"
  by (simp_all add: cluster_creations_def container_creations_def)

lemma creations_Nil [simp]: "cluster_creations [] = 0" "container_creations [] = 0"
  by (simp_all add: cluster_creations_def container_creations_def)

lemma quiet_step_refl [simp]: "quiet_step w w"
  by (simp add: quiet_step_def)

lemma quiet_step_trans: "quiet_step w w1 \<Longrightarrow> quiet_step w1 w2 \<Longrightarrow> quiet_step w w2"
  by (auto simp: quiet_step_def)

lemma quiet_creating: "quiet_step w w' \<Longrightarrow> creating_step w w' 0 0"
  by (auto simp: quiet_step_def creating_step_def)

lemma creating_step_trans:
  "creating_step w w1 a b \<Longrightarrow> creating_step w1 w2 c d \<Longrightarrow> creating_step w w2 (a + c) (b + d)"
  by (auto simp: creating_step_def)

lemma creating_step_issued:
  "creating_step w w' m n \<Longrightarrow>
     cluster_creations (issued w w') = m \<and> container_creations (issued w w') = n"
  by (auto simp: creating_step_def issued_def)

lemma external_quiet:
  "external ev c w = (r, w') \<Longrightarrow> \<not> is_cluster_creation c \<Longrightarrow> \<not> is_container_creation c \<Longrightarrow>
     quiet_step w w'"
  by (auto simp: external_def quiet_step_def cluster_creations_def container_creations_def)

lemma getClient_quiet: "getClient ev w = (r, w') \<Longrightarrow> quiet_step w w'"
  by (auto simp: getClient_def external_def quiet_step_def cluster_creations_def
        container_creations_def split: if_splits option.splits)

lemma PullImage_quiet: "PullImage ev name w = (r, w') \<Longrightarrow> quiet_step w w'"
  by (auto simp: PullImage_def split: option.splits prod.splits
        dest!: getClient_quiet external_quiet intro: quiet_step_trans)

lemma cli_ContainerInspect_quiet:
  "cli_ContainerInspect ev name w = (r, w') \<Longrightarrow>
     quiet_step w w' \<and>
     (name \<in> set (containers w) \<longrightarrow> (\<forall>e. r = Inl e \<longrightarrow> \<not> IsErrNotFound e)) \<and>
     (name \<notin> set (containers w) \<longrightarrow> (\<exists>e. r = Inl e))"
  by (auto simp: cli_ContainerInspect_def external_def quiet_step_def cluster_creations_def
        container_creations_def split: option.splits if_splits)

lemma ContainerExists_quiet:
  "ContainerExists ev name w = (r, w') \<Longrightarrow>
     quiet_step w w' \<and>
     (name \<in> set (containers w) \<longrightarrow> r \<noteq> Inr False) \<and>
     (name \<notin> set (containers w) \<longrightarrow> r \<noteq> Inr True)"
  apply (clarsimp simp: ContainerExists_def split: option.splits prod.splits sum.splits if_splits)
     apply (auto dest!: getClient_quiet cli_ContainerInspect_quiet intro: quiet_step_trans simp: quiet_step_def)
  done


lemma CreateContainer_step:
  assumes "CreateContainer ev name img pms w = (Inr ident, w')"
  shows "creating_step w w' 0 1 \<and> clusters w' = clusters w
         \<and> containers w' = containers w @ [name]"
proof -
  obtain r1 w1 where g: "getClient ev w = (r1, w1)"
    by (cases "getClient ev w")
  have q: "quiet_step w w1" using g by (rule getClient_quiet)
  from assms g have r1: "r1 = None"
    by (cases r1) (simp_all add: CreateContainer_def)
  from assms g r1 have c: "cli_ContainerCreate ev name img pms w1 = (Inr ident, w')"
    by (auto simp: CreateContainer_def split: prod.splits sum.splits)
  then have "trace w' = trace w1 @ [ContainerCreate name img pms]"
    "clusters w' = clusters w1" "containers w' = containers w1 @ [name]"
    by (auto simp: cli_ContainerCreate_def external_def split: option.splits if_splits)
  then have "creating_step w1 w' 0 1" "clusters w' = clusters w1"
    "containers w' = containers w1 @ [name]"
    by (simp_all add: creating_step_def cluster_creations_def container_creations_def)
  with q show ?thesis
    by (auto simp: quiet_step_def creating_step_def)
qed

lemma GetContainerNetworks_quiet:
  "GetContainerNetworks ev name w = (r, w') \<Longrightarrow> quiet_step w w'"
  by (auto simp: GetContainerNetworks_def split: option.splits prod.splits sum.splits
        dest!: getClient_quiet cli_ContainerInspect_quiet intro: quiet_step_trans)

lemma AttachContainerToNetwork_quiet:
  "AttachContainerToNetwork ev c n w = (r, w') \<Longrightarrow> quiet_step w w'"
  by (auto simp: AttachContainerToNetwork_def split: option.splits prod.splits
        dest!: getClient_quiet external_quiet intro: quiet_step_trans)

lemma StartContainer_quiet:
  "StartContainer ev c w = (r, w') \<Longrightarrow> quiet_step w w'"
  by (auto simp: StartContainer_def split: option.splits prod.splits
        dest!: getClient_quiet external_quiet intro: quiet_step_trans)

lemma quiet_creating_trans:
  "quiet_step w w1 \<Longrightarrow> creating_step w1 w2 m n \<Longrightarrow> creating_step w w2 m n"
  "creating_step w w1 m n \<Longrightarrow> quiet_step w1 w2 \<Longrightarrow> creating_step w w2 m n"
  by (auto simp: quiet_step_def creating_step_def)

text \<open>
  The registry step creates no container when the registry exists; it creates one when
  the registry does not exist and the step succeeds.
\<close>

lemma createRegistryInNetwork_existing:
  assumes "createRegistryInNetwork ev name w = (r, w')"
    and "name @ ''-registry'' \<in> set (containers w)"
  shows "quiet_step w w'"
proof -
  obtain r1 w1 where p: "PullImage ev ''registry:2'' w = (r1, w1)"
    by (cases "PullImage ev ''registry:2'' w")
  obtain r2 w2 where e: "ContainerExists ev (name @ ''-registry'') w1 = (r2, w2)"
    by (cases "ContainerExists ev (name @ ''-registry'') w1")
  have q1: "quiet_step w w1" using p by (rule PullImage_quiet)
  then have "name @ ''-registry'' \<in> set (containers w1)"
    using assms(2) by (simp add: quiet_step_def)
  with ContainerExists_quiet [OF e] have q2: "quiet_step w1 w2" and nf: "r2 \<noteq> Inr False"
    by simp_all
  from q1 q2 have q: "quiet_step w w2" by (rule quiet_step_trans)
  show ?thesis
  proof (cases r1)
    case (Some err)
    with assms(1) p q1 show ?thesis by (simp add: createRegistryInNetwork_def)
  next
    case None
    with assms(1) p e nf q show ?thesis
      by (cases r2) (auto simp: createRegistryInNetwork_def)
  qed
qed

lemma createRegistryInNetwork_absent:
  assumes "createRegistryInNetwork ev name w = (Ok u, w')"
    and "name @ ''-registry'' \<notin> set (containers w)"
  shows "creating_step w w' 0 1 \<and> clusters w' = clusters w
         \<and> containers w' = containers w @ [name @ ''-registry'']"
proof -
  obtain r1 w1 where p: "PullImage ev ''registry:2'' w = (r1, w1)"
    by (cases "PullImage ev ''registry:2'' w")
  obtain r2 w2 where e: "ContainerExists ev (name @ ''-registry'') w1 = (r2, w2)"
    by (cases "ContainerExists ev (name @ ''-registry'') w1")
  obtain r3 w3 where c: "CreateContainer ev (name @ ''-registry'') ''registry:2''
      [\<lparr>Protocol = ''tcp'', Host = 5000, Container = 5000\<rparr>] w2 = (r3, w3)"
    by (cases "CreateContainer ev (name @ ''-registry'') ''registry:2''
      [\<lparr>Protocol = ''tcp'', Host = 5000, Container = 5000\<rparr>] w2")
  obtain r4 w4 where g: "GetContainerNetworks ev (name @ ''-control-plane'') w3 = (r4, w4)"
    by (cases "GetContainerNetworks ev (name @ ''-control-plane'') w3")
  have q1: "quiet_step w w1" using p by (rule PullImage_quiet)
  then have "name @ ''-registry'' \<notin> set (containers w1)"
    using assms(2) by (simp add: quiet_step_def)
  with ContainerExists_quiet [OF e] have q2: "quiet_step w1 w2" and nt: "r2 \<noteq> Inr True"
    by simp_all
  from q1 q2 have q: "quiet_step w w2" by (rule quiet_step_trans)
  have q4: "quiet_step w3 w4" using g by (rule GetContainerNetworks_quiet)
  from assms(1) p have r1: "r1 = None"
    by (cases r1) (simp_all add: createRegistryInNetwork_def)
  from assms(1) p e r1 nt have r2: "r2 = Inr False"
    by (cases r2) (auto simp: createRegistryInNetwork_def)
  from assms(1) p e r1 r2 c obtain ident where r3: "r3 = Inr ident"
    by (cases r3) (auto simp: createRegistryInNetwork_def)
  from assms(1) p e r1 r2 c r3 g obtain nets where r4: "r4 = Inr nets"
    by (cases r4) (auto simp: createRegistryInNetwork_def)
  from assms(1) p e r1 r2 c r3 g r4 obtain net rest where nets: "nets = net # rest"
    by (cases nets) (auto simp: createRegistryInNetwork_def)
  obtain r5 w5 where a: "AttachContainerToNetwork ev ident net w4 = (r5, w5)"
    by (cases "AttachContainerToNetwork ev ident net w4")
  obtain r6 w6 where s: "StartContainer ev ident w5 = (r6, w6)"
    by (cases "StartContainer ev ident w5")
  from assms(1) p e r1 r2 c r3 g r4 nets a have r5: "r5 = None"
    by (cases r5) (auto simp: createRegistryInNetwork_def)
  from assms(1) p e r1 r2 c r3 g r4 nets a r5 s have w': "w' = w6"
    by (cases r6) (auto simp: createRegistryInNetwork_def)
  have q5: "quiet_step w4 w5" using a by (rule AttachContainerToNetwork_quiet)
  have q6: "quiet_step w5 w6" using s by (rule StartContainer_quiet)
  from q4 q5 q6 have q36: "quiet_step w3 w6" by (blast intro: quiet_step_trans)
  from CreateContainer_step [OF c [unfolded r3]]
  have c3: "creating_step w2 w3 0 1" "containers w3 = containers w2 @ [name @ ''-registry'']"
    "clusters w3 = clusters w2"
    by simp_all
  from q c3(1) q36 have "creating_step w w6 0 1"
    by (blast intro: quiet_creating_trans)
  moreover have "clusters w6 = clusters w" "containers w6 = containers w @ [name @ ''-registry'']"
    using q q36 c3 by (simp_all add: quiet_step_def)
  ultimately show ?thesis using w' by simp
qed


lemma NewCluster_connect_existing:
  assumes "NewCluster_connect ev name kubeconfig w = (r, w')"
    and "name @ ''-registry'' \<in> set (containers w)"
  shows "quiet_step w w'"
proof -
  obtain r1 w1 where c: "createRegistryInNetwork ev name w = (r1, w1)"
    by (cases "createRegistryInNetwork ev name w")
  have "quiet_step w w1"
    using c assms(2) by (rule createRegistryInNetwork_existing)
  with assms(1) c show ?thesis
    by (cases r1) (auto simp: NewCluster_connect_def split: option.splits)
qed

lemma NewCluster_connect_absent:
  assumes "NewCluster_connect ev name kubeconfig w = (Ok c, w')"
    and "name @ ''-registry'' \<notin> set (containers w)"
  shows "creating_step w w' 0 1 \<and> clusters w' = clusters w
         \<and> containers w' = containers w @ [name @ ''-registry'']
         \<and> Kubeconfig c = kubeconfig"
proof -
  obtain r1 w1 where c: "createRegistryInNetwork ev name w = (r1, w1)"
    by (cases "createRegistryInNetwork ev name w")
  from assms(1) c have "r1 = Ok ()" "w' = w1" "Kubeconfig c = kubeconfig"
    by (cases r1; auto simp: NewCluster_connect_def split: option.splits)+
  with createRegistryInNetwork_absent [OF _ assms(2)] c show ?thesis
    by simp
qed

lemma provider_List_step:
  "provider_List ev w = (r, w') \<Longrightarrow>
     quiet_step w w' \<and> (\<forall>cs. r = Inr cs \<longrightarrow> cs = clusters w)"
  by (auto simp: provider_List_def external_def quiet_step_def cluster_creations_def
        container_creations_def split: option.splits)

lemma provider_KubeConfig_step:
  "provider_KubeConfig ev name w = (r, w') \<Longrightarrow>
     quiet_step w w' \<and> (\<forall>k. r = Inr k \<longrightarrow> k = kubeconfig_of ev name)"
  by (auto simp: provider_KubeConfig_def external_def quiet_step_def cluster_creations_def
        container_creations_def split: option.splits if_splits)

lemma provider_Create_step:
  "provider_Create ev name configFile timeout w = (r, w') \<Longrightarrow>
     creating_step w w' 1 0 \<and>
     (r = None \<longrightarrow> clusters w' = clusters w @ [name]
                  \<and> containers w' = containers w @ [name @ ''-control-plane''])"
  by (auto simp: provider_Create_def external_def creating_step_def cluster_creations_def
        container_creations_def split: option.splits if_splits)

lemma writeOutConfigTemplate_quiet:
  "writeOutConfigTemplate ev address w = (r, w') \<Longrightarrow> quiet_step w w'"
  by (auto simp: writeOutConfigTemplate_def os_CreateTemp_def external_def quiet_step_def
        cluster_creations_def container_creations_def Let_def
        split: option.splits prod.splits sum.splits)

lemma os_Remove_quiet: "os_Remove ev name w = (r, w') \<Longrightarrow> quiet_step w w'"
  by (auto simp: os_Remove_def external_def quiet_step_def cluster_creations_def
        container_creations_def split: option.splits if_splits)

lemma NewCluster_create_fresh:
  assumes "NewCluster_create ev name timeout configFilePath w = (Ok c, w')"
    and "name @ ''-registry'' \<notin> set (containers w)"
  shows "creating_step w w' 1 1 \<and> name \<in> set (clusters w')
         \<and> name @ ''-registry'' \<in> set (containers w')
         \<and> Kubeconfig c = kubeconfig_of ev name"
proof -
  obtain r1 w1 where p: "provider_Create ev name configFilePath timeout w = (r1, w1)"
    by (cases "provider_Create ev name configFilePath timeout w")
  obtain r2 w2 where k: "provider_KubeConfig ev name w1 = (r2, w2)"
    by (cases "provider_KubeConfig ev name w1")
  from assms(1) p have r1: "r1 = None"
    by (cases r1) (simp_all add: NewCluster_create_def)
  from assms(1) p r1 k obtain kubeconfig where r2: "r2 = Inr kubeconfig"
    by (cases r2) (simp_all add: NewCluster_create_def)
  from assms(1) p r1 k r2 have n: "NewCluster_connect ev name kubeconfig w2 = (Ok c, w')"
    by (simp add: NewCluster_create_def)
  from provider_Create_step [OF p] r1
  have s1: "creating_step w w1 1 0" "clusters w1 = clusters w @ [name]"
    "containers w1 = containers w @ [name @ ''-control-plane'']"
    by simp_all
  from provider_KubeConfig_step [OF k] r2
  have s2: "quiet_step w1 w2" "kubeconfig = kubeconfig_of ev name"
    by simp_all
  have "name @ ''-registry'' \<notin> set (containers w2)"
    using s1 s2 assms(2) by (simp add: quiet_step_def)
  from NewCluster_connect_absent [OF n this]
  have s3: "creating_step w2 w' 0 1" "clusters w' = clusters w2"
    "containers w' = containers w2 @ [name @ ''-registry'']" "Kubeconfig c = kubeconfig"
    by simp_all
  have "creating_step w w2 1 0"
    using s1(1) s2(1) by (rule quiet_creating_trans)
  from creating_step_trans [OF this s3(1)] have "creating_step w w' 1 1"
    by simp
  moreover have "name \<in> set (clusters w')"
    using s1 s2 s3 by (simp add: quiet_step_def)
  ultimately show ?thesis using s2 s3 by simp
qed

lemma NewCluster_first:
  assumes "NewCluster ev name timeout w = (Ok c, w')"
    and "name \<notin> set (clusters w)"
    and "name @ ''-registry'' \<notin> set (containers w)"
  shows "creating_step w w' 1 1 \<and> name \<in> set (clusters w')
         \<and> name @ ''-registry'' \<in> set (containers w')
         \<and> Kubeconfig c = kubeconfig_of ev name"
proof -
  obtain r1 w1 where l: "provider_List ev w = (r1, w1)"
    by (cases "provider_List ev w")
  from assms(1) l obtain listed where r1: "r1 = Inr listed"
    by (cases r1) (simp_all add: NewCluster_def)
  from provider_List_step [OF l] r1
  have s1: "quiet_step w w1" "listed = clusters w"
    by simp_all
  with assms(2) have nl: "name \<notin> set listed" by simp
  obtain r3 w3 where t: "writeOutConfigTemplate ev (name @ ''-registry:5000'') w1 = (r3, w3)"
    by (cases "writeOutConfigTemplate ev (name @ ''-registry:5000'') w1")
  from assms(1) l r1 nl t obtain configFilePath where r3: "r3 = Inr configFilePath"
    by (cases r3) (simp_all add: NewCluster_def)
  obtain r4 w4 where n: "NewCluster_create ev name timeout configFilePath w3 = (r4, w4)"
    by (cases "NewCluster_create ev name timeout configFilePath w3")
  obtain r5 w5 where d: "os_Remove ev configFilePath w4 = (r5, w5)"
    by (cases "os_Remove ev configFilePath w4")
  from assms(1) l r1 nl t r3 n d have res: "r4 = Ok c" "w' = w5"
    by (simp_all add: NewCluster_def)
  have s3: "quiet_step w1 w3" using t by (rule writeOutConfigTemplate_quiet)
  have s5: "quiet_step w4 w5" using d by (rule os_Remove_quiet)
  have q13: "quiet_step w w3" using s1(1) s3 by (rule quiet_step_trans)
  then have "name @ ''-registry'' \<notin> set (containers w3)"
    using assms(3) by (simp add: quiet_step_def)
  from NewCluster_create_fresh [OF n [unfolded res(1)] this]
  have s4: "creating_step w3 w4 1 1" "name \<in> set (clusters w4)"
    "name @ ''-registry'' \<in> set (containers w4)" "Kubeconfig c = kubeconfig_of ev name"
    by simp_all
  have "creating_step w w5 1 1"
    using q13 s4(1) s5 by (blast intro: quiet_creating_trans)
  then show ?thesis using s4 s5 res by (simp add: quiet_step_def)
qed

lemma NewCluster_again:
  assumes "NewCluster ev name timeout w = (r, w')"
    and "name \<in> set (clusters w)"
    and "name @ ''-registry'' \<in> set (containers w)"
    and "kubeconfig_of ev name \<noteq> []"
  shows "quiet_step w w'"
proof -
  obtain r1 w1 where l: "provider_List ev w = (r1, w1)"
    by (cases "provider_List ev w")
  have s1: "quiet_step w w1" using provider_List_step [OF l] by simp
  show ?thesis
  proof (cases r1)
    case (Inl err)
    with assms(1) l s1 show ?thesis by (simp add: NewCluster_def)
  next
    case (Inr listed)
    with provider_List_step [OF l] assms(2) have il: "name \<in> set listed" by simp
    obtain r2 w2 where k: "provider_KubeConfig ev name w1 = (r2, w2)"
      by (cases "provider_KubeConfig ev name w1")
    have s2: "quiet_step w1 w2" using provider_KubeConfig_step [OF k] by simp
    have q: "quiet_step w w2" using s1 s2 by (rule quiet_step_trans)
    show ?thesis
    proof (cases r2)
      case (Inl err)
      with assms(1) l Inr il k q show ?thesis by (simp add: NewCluster_def)
    next
      case (Inr kubeconfig)
      with provider_KubeConfig_step [OF k] assms(4) have ne: "kubeconfig \<noteq> []" by simp
      from assms(1) l \<open>r1 = Inr listed\<close> il k Inr ne
      have n: "NewCluster_connect ev name kubeconfig w2 = (r, w')"
        by (simp add: NewCluster_def)
      have "name @ ''-registry'' \<in> set (containers w2)"
        using q assms(3) by (simp add: quiet_step_def)
      with n have "quiet_step w2 w'" by (rule NewCluster_connect_existing)
      with q show ?thesis by (rule quiet_step_trans)
    qed
  qed
qed


text \<open>The reuse branch, from a state in which the client is ready.\<close>

lemma getClient_ready: "client_ready w \<Longrightarrow> getClient ev w = (None, w)"
  by (simp add: getClient_def client_ready_def)

lemma NewCluster_reuse_clean:
  assumes "client_ready w"
    and "name \<in> set (clusters w)"
    and "name @ ''-registry'' \<in> set (containers w)"
    and "kubeconfig_of ev name \<noteq> []"
    and "rest_config_err ev (kubeconfig_of ev name) = None"
    and "clientset_err ev (kubeconfig_of ev name) = None"
    and "faults ev (length (trace w)) ProviderList = None"
    and "faults ev (length (trace w) + 1) (ProviderKubeConfig name) = None"
    and "faults ev (length (trace w) + 2) (ImagePull ''registry:2'') = None"
    and "body_faults ev (length (trace w) + 3) (ImagePull ''registry:2'') = None"
    and "faults ev (length (trace w) + 3) (ContainerInspect (name @ ''-registry'')) = None"
  shows "NewCluster ev name timeout w
     = (Ok \<lparr>Name = name, Kubeconfig = kubeconfig_of ev name, Clientset = kubeconfig_of ev name\<rparr>,
        w\<lparr>trace := trace w @ reuse_calls name\<rparr>)"
  using assms
  by (simp add: NewCluster_def provider_List_def provider_KubeConfig_def external_def
      NewCluster_connect_def createRegistryInNetwork_def PullImage_def getClient_def
      client_ready_def read_body_def ContainerExists_def cli_ContainerInspect_def
      reuse_calls_def Let_def numeral_3_eq_3 numeral_2_eq_2)

lemma NewCluster_reuse_prefix:
  assumes "client_ready w"
    and "name \<in> set (clusters w)"
    and "name @ ''-registry'' \<in> set (containers w)"
    and "kubeconfig_of ev name \<noteq> []"
  shows "prefix (issued w (snd (NewCluster ev name timeout w))) (reuse_calls name)"
  using assms
  by (auto simp: NewCluster_def provider_List_def provider_KubeConfig_def external_def
      NewCluster_connect_def createRegistryInNetwork_def PullImage_def getClient_def
      client_ready_def read_body_def ContainerExists_def cli_ContainerInspect_def
      reuse_calls_def Let_def issued_def
      split: option.splits)

lemma NewCluster_reuse_ok:
  assumes "client_ready w"
    and "name \<in> set (clusters w)"
    and "name @ ''-registry'' \<in> set (containers w)"
    and "kubeconfig_of ev name \<noteq> []"
    and "NewCluster ev name timeout w = (Ok c, w')"
  shows "c = \<lparr>Name = name, Kubeconfig = kubeconfig_of ev name, Clientset = kubeconfig_of ev name\<rparr>
       \<and> w' = w\<lparr>trace := trace w @ reuse_calls name\<rparr>"
  using assms
  by (auto simp: NewCluster_def provider_List_def provider_KubeConfig_def external_def
      NewCluster_connect_def createRegistryInNetwork_def PullImage_def getClient_def
      client_ready_def read_body_def ContainerExists_def cli_ContainerInspect_def
      reuse_calls_def Let_def
      split: option.splits if_splits)




lemma createRegistryInNetwork_fresh_trace:
  assumes "createRegistryInNetwork ev name w = (Ok u, w')"
    and "name @ ''-registry'' \<notin> set (containers w)"
  shows "trace w' = trace w @ (if clientOnce w then [] else [NewClientWithOpts])
         @ [ImagePull ''registry:2'', ContainerInspect (name @ ''-registry''),
            ContainerCreate (name @ ''-registry'') ''registry:2''
              [\<lparr>Protocol = ''tcp'', Host = 5000, Container = 5000\<rparr>],
            ContainerInspect (name @ ''-control-plane''),
            NetworkConnect (hd (networks_of ev (name @ ''-control-plane'')))
              (container_id ev (name @ ''-registry'')),
            ContainerStart (container_id ev (name @ ''-registry''))]
         \<and> client_ready w' \<and> files w' = files w"
  using assms
  by (auto simp: createRegistryInNetwork_def PullImage_def getClient_def external_def
      read_body_def ContainerExists_def cli_ContainerInspect_def CreateContainer_def
      cli_ContainerCreate_def GetContainerNetworks_def AttachContainerToNetwork_def
      StartContainer_def client_ready_def Let_def
      split: option.splits if_splits sum.splits list.splits bool.splits)


lemma NewCluster_connect_fresh_trace:
  assumes "NewCluster_connect ev name kubeconfig w = (Ok c, w')"
    and "name @ ''-registry'' \<notin> set (containers w)"
  shows "trace w' = trace w @ (if clientOnce w then [] else [NewClientWithOpts])
         @ [ImagePull ''registry:2'', ContainerInspect (name @ ''-registry''),
            ContainerCreate (name @ ''-registry'') ''registry:2''
              [\<lparr>Protocol = ''tcp'', Host = 5000, Container = 5000\<rparr>],
            ContainerInspect (name @ ''-control-plane''),
            NetworkConnect (hd (networks_of ev (name @ ''-control-plane'')))
              (container_id ev (name @ ''-registry'')),
            ContainerStart (container_id ev (name @ ''-registry''))]
         \<and> client_ready w' \<and> files w' = files w
         \<and> c = \<lparr>Name = name, Kubeconfig = kubeconfig, Clientset = kubeconfig\<rparr>
         \<and> rest_config_err ev kubeconfig = None \<and> clientset_err ev kubeconfig = None"
proof -
  obtain r1 w1 where cr: "createRegistryInNetwork ev name w = (r1, w1)"
    by (cases "createRegistryInNetwork ev name w")
  from assms(1) cr
  have "r1 = Ok ()" "w' = w1" "c = \<lparr>Name = name, Kubeconfig = kubeconfig, Clientset = kubeconfig\<rparr>"
    "rest_config_err ev kubeconfig = None" "clientset_err ev kubeconfig = None"
    by (auto simp: NewCluster_connect_def split: option.splits result.splits)
  with createRegistryInNetwork_fresh_trace [OF _ assms(2)] cr show ?thesis
    by simp
qed

lemma NewCluster_fresh_trace:
  assumes "NewCluster ev name timeout w = (Ok c, w')"
    and "name \<notin> set (clusters w)"
    and "name @ ''-registry'' \<notin> set (containers w)"
  shows "issued w w' = fresh_calls ev name timeout w
       \<and> client_ready w'
       \<and> c = \<lparr>Name = name, Kubeconfig = kubeconfig_of ev name,
               Clientset = kubeconfig_of ev name\<rparr>
       \<and> rest_config_err ev (kubeconfig_of ev name) = None
       \<and> clientset_err ev (kubeconfig_of ev name) = None"
proof -
  let ?p = "temp_name ev (Suc (length (trace w)))"
  let ?w3 = "w\<lparr>files := files w @ [?p],
              clusters := clusters w @ [name],
              containers := containers w @ [name @ ''-control-plane''],
              trace := trace w @ [ProviderList, CreateTemp ''kind-config-*.yaml'',
                TemplateExecute ?p (name @ ''-registry:5000''),
                ProviderCreate name ?p timeout, ProviderKubeConfig name]\<rparr>"
  obtain r w4 where n: "NewCluster_connect ev name (kubeconfig_of ev name) ?w3 = (r, w4)"
    by (cases "NewCluster_connect ev name (kubeconfig_of ev name) ?w3")
  from assms(1) assms(2) n
  have res: "r = Ok c" "trace w' = trace w4 @ [OsRemove ?p]"
    "clientOnce w' = clientOnce w4" "clientErr w' = clientErr w4"
    by (auto simp: NewCluster_def provider_List_def external_def writeOutConfigTemplate_def
        os_CreateTemp_def NewCluster_create_def provider_Create_def provider_KubeConfig_def
        os_Remove_def Let_def
        split: option.splits if_splits sum.splits prod.splits)
  have "name @ ''-registry'' \<notin> set (containers ?w3)"
    using assms(3) by simp
  from NewCluster_connect_fresh_trace [OF n [unfolded res(1)] this] res
  show ?thesis
    by (simp add: issued_def fresh_calls_def client_ready_def Let_def)
qed


lemma NewCluster_fresh_succeeds:
  assumes "\<forall>n c. faults ev n c = None"
    and "\<forall>n c. body_faults ev n c = None"
    and "template_err ev = None"
    and "rest_config_err ev (kubeconfig_of ev name) = None"
    and "clientset_err ev (kubeconfig_of ev name) = None"
    and "kubeconfig_of ev name \<noteq> []"
    and "networks_of ev (name @ ''-control-plane'') \<noteq> []"
    and "name \<notin> set (clusters w)"
    and "name @ ''-registry'' \<notin> set (containers w)"
    and "clientOnce w \<longrightarrow> clientErr w = None"
  shows "fst (NewCluster ev name timeout w)
     = Ok \<lparr>Name = name, Kubeconfig = kubeconfig_of ev name, Clientset = kubeconfig_of ev name\<rparr>"
  using assms
  by (auto simp: NewCluster_def provider_List_def external_def writeOutConfigTemplate_def
      os_CreateTemp_def NewCluster_create_def provider_Create_def provider_KubeConfig_def
      os_Remove_def NewCluster_connect_def createRegistryInNetwork_def PullImage_def
      getClient_def read_body_def ContainerExists_def cli_ContainerInspect_def
      CreateContainer_def cli_ContainerCreate_def GetContainerNetworks_def
      AttachContainerToNetwork_def StartContainer_def Let_def
      split: list.splits)

text \<open>
  Whatever the surroundings: when the registry container has been created and the
  inspection of the control-plane node reports no network, the registry step panics.
\<close>

lemma createRegistryInNetwork_no_network:
  assumes "PullImage ev ''registry:2'' w = (None, w1)"
    and "ContainerExists ev (name @ ''-registry'') w1 = (Inr False, w2)"
    and "CreateContainer ev (name @ ''-registry'') ''registry:2''
           [\<lparr>Protocol = ''tcp'', Host = 5000, Container = 5000\<rparr>] w2 = (Inr ident, w3)"
    and "GetContainerNetworks ev (name @ ''-control-plane'') w3 = (Inr [], w4)"
  shows "createRegistryInNetwork ev name w = (Panic ''index out of range [0] with length 0'', w4)"
  using assms by (simp add: createRegistryInNetwork_def)

text \<open>
  Whatever the surroundings: when the scratch file has been created and the template
  cannot be written into it, \<^verbatim>\<open>writeOutConfigTemplate\<close> returns an error and the file
  is still there.
\<close>

lemma writeOutConfigTemplate_leaves_file:
  assumes "template_err ev = None"
    and "os_CreateTemp ev ''kind-config-*.yaml'' w = (Inr file, w1)"
    and "external ev (TemplateExecute file address) w1 = (Some err, w2)"
  shows "writeOutConfigTemplate ev address w
           = (Inl (Errorf ''failed to execute config template'' err), w2)
         \<and> file \<in> set (files w2)"
  using assms
  by (auto simp: writeOutConfigTemplate_def os_CreateTemp_def external_def Let_def
        split: option.splits)

text \<open>
  C1. The claim: without a network on the control-plane node the registry step returns
  an error. The code indexes the empty list of networks: on a host where the cluster
  \<^verbatim>\<open>dev\<close> runs, the registry container is missing and the node is on no network,
  \<^verbatim>\<open>createRegistryInNetwork\<close> panics, and \<^verbatim>\<open>NewCluster\<close> with it.
\<close>

theorem createRegistryInNetwork_panics_without_network:
  "fst (createRegistryInNetwork isolated_env ''dev'' isolated_world)
     = Panic ''index out of range [0] with length 0''
   \<and> fst (NewCluster isolated_env ''dev'' (5 * Minute) isolated_world)
     = Panic ''index out of range [0] with length 0''"
  by code_simp

text \<open>
  C7. The claim: the configuration file is gone when \<^verbatim>\<open>NewCluster\<close> returns, also when
  writing the template fails. The removal is deferred only after
  \<^verbatim>\<open>writeOutConfigTemplate\<close> has returned a name: when the file is created and the
  template cannot be written into it, \<^verbatim>\<open>NewCluster\<close> returns the error and the file
  stays. When nothing fails, the file is removed.
\<close>

theorem NewCluster_leaves_config_file:
  "fst (NewCluster full_disk_env ''dev'' (5 * Minute) empty_world)
     = Err (Errorf ''failed to write out config template''
             (Errorf ''failed to execute config template'' (Msg ''no space left on device'')))
   \<and> files (snd (NewCluster full_disk_env ''dev'' (5 * Minute) empty_world))
     = [''/tmp/kind-config-1.yaml'']
   \<and> files (snd (NewCluster quiet_env ''dev'' (5 * Minute) empty_world)) = []"
  by code_simp

text \<open>
  C3. For a name with no cluster and no registry container, a call of \<^verbatim>\<open>NewCluster\<close>
  that succeeds has made exactly the calls of a fresh creation, among them one cluster
  creation and one container creation. A second call for the same name, with any
  timeout, makes no creation and leaves clusters and containers as they are, whatever
  its outcome; its calls are the listing, the fetch of the credentials, the pull and the
  existence check, or the first of them when one fails; when it succeeds it has made
  these four calls and returns the same handle, and it succeeds whenever none of the
  four fails. The credentials document of the cluster is taken to be non-empty: the
  code reads an empty document as "no such cluster".
\<close>

theorem NewCluster_idempotent:
  assumes "name \<notin> set (clusters w)"
    and "name @ ''-registry'' \<notin> set (containers w)"
    and "NewCluster ev name timeout w = (Ok c, w1)"
    and "Kubeconfig c \<noteq> []"
  shows "cluster_creations (issued w w1) = 1
       \<and> container_creations (issued w w1) = 1
       \<and> cluster_creations (issued w1 (snd (NewCluster ev name timeout' w1))) = 0
       \<and> container_creations (issued w1 (snd (NewCluster ev name timeout' w1))) = 0
       \<and> clusters (snd (NewCluster ev name timeout' w1)) = clusters w1
       \<and> containers (snd (NewCluster ev name timeout' w1)) = containers w1
       \<and> issued w w1 = fresh_calls ev name timeout w
       \<and> prefix (issued w1 (snd (NewCluster ev name timeout' w1))) (reuse_calls name)
       \<and> (\<forall>c' w2. NewCluster ev name timeout' w1 = (Ok c', w2)
             \<longrightarrow> c' = c \<and> issued w1 w2 = reuse_calls name)
       \<and> (faults ev (length (trace w1)) ProviderList = None
          \<and> faults ev (length (trace w1) + 1) (ProviderKubeConfig name) = None
          \<and> faults ev (length (trace w1) + 2) (ImagePull ''registry:2'') = None
          \<and> body_faults ev (length (trace w1) + 3) (ImagePull ''registry:2'') = None
          \<and> faults ev (length (trace w1) + 3) (ContainerInspect (name @ ''-registry'')) = None
          \<longrightarrow> NewCluster ev name timeout' w1
                = (Ok c, w1\<lparr>trace := trace w1 @ reuse_calls name\<rparr>))"
proof -
  from NewCluster_first [OF assms(3) assms(1) assms(2)]
  have f: "creating_step w w1 1 1" "name \<in> set (clusters w1)"
    "name @ ''-registry'' \<in> set (containers w1)" "Kubeconfig c = kubeconfig_of ev name"
    by simp_all
  from NewCluster_fresh_trace [OF assms(3) assms(1) assms(2)]
  have t: "issued w w1 = fresh_calls ev name timeout w" "client_ready w1"
    "c = \<lparr>Name = name, Kubeconfig = kubeconfig_of ev name, Clientset = kubeconfig_of ev name\<rparr>"
    "rest_config_err ev (kubeconfig_of ev name) = None"
    "clientset_err ev (kubeconfig_of ev name) = None"
    by simp_all
  obtain r2 w2 where s: "NewCluster ev name timeout' w1 = (r2, w2)"
    by (cases "NewCluster ev name timeout' w1")
  from f(4) assms(4) have ne: "kubeconfig_of ev name \<noteq> []" by simp
  from NewCluster_again [OF s f(2) f(3) ne] have q: "quiet_step w1 w2" .
  have old: "cluster_creations (issued w w1) = 1 \<and> container_creations (issued w w1) = 1
       \<and> cluster_creations (issued w1 (snd (NewCluster ev name timeout' w1))) = 0
       \<and> container_creations (issued w1 (snd (NewCluster ev name timeout' w1))) = 0
       \<and> clusters (snd (NewCluster ev name timeout' w1)) = clusters w1
       \<and> containers (snd (NewCluster ev name timeout' w1)) = containers w1"
    using creating_step_issued [OF f(1)] creating_step_issued [OF quiet_creating [OF q]] q s
    by (simp add: quiet_step_def)
  have pre: "prefix (issued w1 (snd (NewCluster ev name timeout' w1))) (reuse_calls name)"
    using t(2) f(2) f(3) ne by (rule NewCluster_reuse_prefix)
  have ok: "\<forall>c' w2. NewCluster ev name timeout' w1 = (Ok c', w2)
             \<longrightarrow> c' = c \<and> issued w1 w2 = reuse_calls name"
  proof (intro allI impI)
    fix c' w2'
    assume "NewCluster ev name timeout' w1 = (Ok c', w2')"
    from NewCluster_reuse_ok [OF t(2) f(2) f(3) ne this] t(3)
    show "c' = c \<and> issued w1 w2' = reuse_calls name"
      by (simp add: issued_def)
  qed
  have clean: "faults ev (length (trace w1)) ProviderList = None
          \<and> faults ev (length (trace w1) + 1) (ProviderKubeConfig name) = None
          \<and> faults ev (length (trace w1) + 2) (ImagePull ''registry:2'') = None
          \<and> body_faults ev (length (trace w1) + 3) (ImagePull ''registry:2'') = None
          \<and> faults ev (length (trace w1) + 3) (ContainerInspect (name @ ''-registry'')) = None
          \<longrightarrow> NewCluster ev name timeout' w1
                = (Ok c, w1\<lparr>trace := trace w1 @ reuse_calls name\<rparr>)"
    using NewCluster_reuse_clean [OF t(2) f(2) f(3) ne t(4) t(5), of timeout'] t(3)
    by simp
  from old t(1) pre ok clean show ?thesis
    by blast
qed

theorem NewCluster_idempotent_witness:
  "''dev'' \<notin> set (clusters empty_world)
   \<and> ''dev'' @ ''-registry'' \<notin> set (containers empty_world)
   \<and> fst (NewCluster quiet_env ''dev'' (5 * Minute) empty_world)
       = Ok \<lparr>Name = ''dev'', Kubeconfig = ''apiVersion: v1'', Clientset = ''apiVersion: v1''\<rparr>
   \<and> cluster_creations
       (issued empty_world (snd (NewCluster quiet_env ''dev'' (5 * Minute) empty_world))) = 1
   \<and> container_creations
       (issued empty_world (snd (NewCluster quiet_env ''dev'' (5 * Minute) empty_world))) = 1
   \<and> cluster_creations
       (issued (snd (NewCluster quiet_env ''dev'' (5 * Minute) empty_world))
          (snd (NewCluster quiet_env ''dev'' (5 * Minute)
                 (snd (NewCluster quiet_env ''dev'' (5 * Minute) empty_world))))) = 0
   \<and> container_creations
       (issued (snd (NewCluster quiet_env ''dev'' (5 * Minute) empty_world))
          (snd (NewCluster quiet_env ''dev'' (5 * Minute)
                 (snd (NewCluster quiet_env ''dev'' (5 * Minute) empty_world))))) = 0
   \<and> issued empty_world (snd (NewCluster quiet_env ''dev'' (5 * Minute) empty_world))
       = fresh_calls quiet_env ''dev'' (5 * Minute) empty_world
   \<and> fst (NewCluster quiet_env ''dev'' (5 * Minute)
            (snd (NewCluster quiet_env ''dev'' (5 * Minute) empty_world)))
       = Ok \<lparr>Name = ''dev'', Kubeconfig = ''apiVersion: v1'', Clientset = ''apiVersion: v1''\<rparr>
   \<and> issued (snd (NewCluster quiet_env ''dev'' (5 * Minute) empty_world))
        (snd (NewCluster quiet_env ''dev'' (5 * Minute)
               (snd (NewCluster quiet_env ''dev'' (5 * Minute) empty_world))))
       = reuse_calls ''dev''"
proof -
  let ?c = "\<lparr>Name = ''dev'', Kubeconfig = ''apiVersion: v1'', Clientset = ''apiVersion: v1''\<rparr>"
  let ?w1 = "snd (NewCluster quiet_env ''dev'' (5 * Minute) empty_world)"
  have h1: "''dev'' \<notin> set (clusters empty_world)"
    by (simp add: empty_world_def)
  have h2: "''dev'' @ ''-registry'' \<notin> set (containers empty_world)"
    by (simp add: empty_world_def)
  have ok: "fst (NewCluster quiet_env ''dev'' (5 * Minute) empty_world) = Ok ?c"
    by code_simp
  then have h3: "NewCluster quiet_env ''dev'' (5 * Minute) empty_world = (Ok ?c, ?w1)"
    by (simp add: prod_eq_iff)
  have h4: "Kubeconfig ?c \<noteq> []"
    by simp
  have nf: "faults quiet_env n x = None" "body_faults quiet_env n x = None" for n x
    by (simp_all add: quiet_env_def)
  note th = NewCluster_idempotent [OF h1 h2 h3 h4, of "5 * Minute"]
  from th have counts: "cluster_creations (issued empty_world ?w1) = 1"
    "container_creations (issued empty_world ?w1) = 1"
    "cluster_creations (issued ?w1 (snd (NewCluster quiet_env ''dev'' (5 * Minute) ?w1))) = 0"
    "container_creations (issued ?w1 (snd (NewCluster quiet_env ''dev'' (5 * Minute) ?w1))) = 0"
    "issued empty_world ?w1 = fresh_calls quiet_env ''dev'' (5 * Minute) empty_world"
    by blast+
  from th nf have again: "NewCluster quiet_env ''dev'' (5 * Minute) ?w1
      = (Ok ?c, ?w1\<lparr>trace := trace ?w1 @ reuse_calls ''dev''\<rparr>)"
    by blast
  then have second: "fst (NewCluster quiet_env ''dev'' (5 * Minute) ?w1) = Ok ?c"
    "issued ?w1 (snd (NewCluster quiet_env ''dev'' (5 * Minute) ?w1)) = reuse_calls ''dev''"
    by (simp_all add: issued_def)
  from h1 h2 ok counts second show ?thesis
    by blast
qed

end
